theory Spec2Isabelle
  imports Main
begin

section \<open>SwanSpawner: a shallow embedding of swanspawner.py\<close>

text \<open>
  The Python class \<^verbatim>\<open>SwanSpawner\<close> (src/SwanSpawner/swanspawner/swanspawner.py) is
  modelled method by method. Python strings are \<^typ>\<open>string\<close> (a character is a code
  point below 256), Python ints are \<^typ>\<open>int\<close>, a raised exception is the \<open>Inl\<close> side of
  a sum, and everything the operating system, the file system, the clock or the
  upstream spawner class answers is read from an explicit record of answers.
\<close>

subsection \<open>Exceptions\<close>

text \<open>
  The text of every exception the module raises itself, by the line of the
  \<^verbatim>\<open>raise\<close>:
  \<^item> \<open>StackNotInitialised\<close>: line 305, "Could not initialize software stack, please
    check service status or report an issue";
  \<^item> \<open>ConfigurationNotAvailable\<close>: line 312, "Configuration not available: please
    select other Software stack and Platform";
  \<^item> \<open>CloudContainersStackUnsupported\<close>: line 322, "Configuration unsupported: only
    Software stack: Bleeding Edge Python2/Python3 is supported for Cloud Containers";
  \<^item> \<open>CloudContainersConnectProblem\<close>: line 351, "Problem connecting to Cloud
    Containers cluster. Please report an issue";
  \<^item> \<open>NxcalsAccessNotGranted\<close>: line 385, "Access to the NXCALS cluster is not
    granted. Please request access" (the words "request access" are a link);
  \<^item> \<open>TokensMissingUnsupported\<close>: line 396, "Configuration unsupported: only Software
    stack: Bleeding Edge is supported for Cloud Containers";
  \<^item> \<open>PortAllocationFailed\<close>: line 277, "Error while allocating ports for Spark.
    Please try again.";
  \<^item> \<open>PortInUse p\<close>: line 506, "Port p is in use";
  \<^item> \<open>UnknownExitCodeFormat\<close>: line 595, "unknown exit code format for this Spawner";
  \<^item> \<open>EmptyRange\<close>: the ValueError of \<^verbatim>\<open>random.randint(a, b)\<close> when \<open>b < a\<close>;
  \<^item> \<open>InvalidLiteral s\<close>: the ValueError of \<^verbatim>\<open>int(s)\<close>, "invalid literal for int() with
    base 10".
\<close>

datatype message =
    StackNotInitialised
  | ConfigurationNotAvailable
  | CloudContainersStackUnsupported
  | CloudContainersConnectProblem
  | NxcalsAccessNotGranted
  | TokensMissingUnsupported
  | PortAllocationFailed
  | PortInUse int
  | UnknownExitCodeFormat
  | EmptyRange
  | InvalidLiteral string

text \<open>
  \<open>External c\<close> is an exception of class \<open>c\<close> raised by a collaborator (a subprocess
  that times out, a socket call, the file system, the upstream spawner). All exceptions
  of the model are subclasses of Python's \<^verbatim>\<open>Exception\<close>.
\<close>

datatype exn =
    ValueError message
  | RuntimeError message
  | PyException message
  | NameError string
  | KeyError string
  | IndexError
  | AttributeError
  | External string

fun class_name :: "exn \<Rightarrow> string" where
  "class_name (ValueError m) = ''ValueError''"
| "class_name (RuntimeError m) = ''RuntimeError''"
| "class_name (PyException m) = ''Exception''"
| "class_name (NameError n) = ''NameError''"
| "class_name (KeyError k) = ''KeyError''"
| "class_name IndexError = ''IndexError''"
| "class_name AttributeError = ''AttributeError''"
| "class_name (External c) = c"

subsection \<open>Strings\<close>

text \<open>\<^verbatim>\<open>sep.join(xs)\<close>.\<close>

fun join_str :: "string \<Rightarrow> string list \<Rightarrow> string" where
  "join_str sep [] = []"
| "join_str sep [x] = x"
| "join_str sep (x # y # ys) = x @ sep @ join_str sep (y # ys)"

text \<open>\<^verbatim>\<open>str(n)\<close> for an int: decimal digits, a minus sign when negative.\<close>

definition digit_char :: "nat \<Rightarrow> char" where
  "digit_char d = ''0123456789'' ! (d mod 10)"

fun str_nat :: "nat \<Rightarrow> string" where
  "str_nat n = (if n < 10 then [digit_char n] else str_nat (n div 10) @ [digit_char n])"

declare str_nat.simps [simp del]

definition str_int :: "int \<Rightarrow> string" where
  "str_int i = (if i < 0 then CHR ''-'' # str_nat (nat (- i)) else str_nat (nat i))"

text \<open>\<^verbatim>\<open>needle in hay\<close> for two strings: \<open>needle\<close> occurs as a contiguous run.\<close>

fun starts_with :: "string \<Rightarrow> string \<Rightarrow> bool" where
  "starts_with [] s = True"
| "starts_with (p # ps) [] = False"
| "starts_with (p # ps) (c # cs) = (p = c \<and> starts_with ps cs)"

fun contains_str :: "string \<Rightarrow> string \<Rightarrow> bool" where
  "contains_str needle [] = (needle = [])"
| "contains_str needle (c # cs) = (starts_with needle (c # cs) \<or> contains_str needle cs)"

subsection \<open>Port reservation: \<^verbatim>\<open>get_reserved_port\<close> (lines 491-522)\<close>

text \<open>
  What the machine answers during one pass of the retry loop:
  \<^item> \<open>socket_error\<close>: the exception of \<^verbatim>\<open>socket()\<close> at line 501, if it raises;
  \<^item> \<open>entropy\<close>: the random number \<^verbatim>\<open>random.randint\<close> draws from at line 502;
  \<^item> \<open>net_connections\<close>: the local ports \<^verbatim>\<open>conn.laddr[1]\<close> of
    \<^verbatim>\<open>psutil.net_connections()\<close>, or the exception that reading them raises;
  \<^item> \<open>setsockopt_error\<close>: the exception of \<^verbatim>\<open>s.setsockopt\<close> at line 507, if it raises;
  \<^item> \<open>handshake_error\<close>: the exception, if any, of the socket calls of lines
    508-518 (bind, listen, getsockname, the second socket, connect, accept);
  \<^item> \<open>ephemeral\<close>: the port the kernel picks when asked to bind port 0.
\<close>

record attempt =
  socket_error :: "exn option"
  entropy :: nat
  net_connections :: "exn + int list"
  setsockopt_error :: "exn option"
  handshake_error :: "exn option"
  ephemeral :: int

text \<open>
  \<^verbatim>\<open>random.randint(a, b)\<close>: some integer of \<open>[a, b]\<close>, every one of them for some
  entropy; ValueError when the range is empty.
\<close>

definition randint :: "nat \<Rightarrow> int \<Rightarrow> int \<Rightarrow> exn + int" where
  "randint r a b =
     (if b < a then Inl (ValueError EmptyRange) else Inr (a + int r mod (b - a + 1)))"

text \<open>
  Lines 507-519, \<^verbatim>\<open>s.bind(('127.0.0.1', port))\<close> and what \<^verbatim>\<open>s.getsockname()[1]\<close> is
  after it: Python refuses a port outside 0..65535 with OverflowError, the kernel binds
  the port asked for, and for port 0 it binds a port of its own choice.
\<close>

definition bound_port :: "attempt \<Rightarrow> int \<Rightarrow> exn + int" where
  "bound_port a port =
     (case setsockopt_error a of
        Some e \<Rightarrow> Inl e
      | None \<Rightarrow>
          if port < 0 \<or> 65535 < port then Inl (External ''OverflowError'')
          else (case handshake_error a of
                  Some e \<Rightarrow> Inl e
                | None \<Rightarrow> Inr (if port = 0 then ephemeral a else port)))"

text \<open>The body of the \<^verbatim>\<open>try\<close> of lines 500-519: the port returned, or the exception.\<close>

definition reserve_attempt :: "attempt \<Rightarrow> int \<Rightarrow> int \<Rightarrow> exn + int" where
  "reserve_attempt a start endp =
     (case socket_error a of
        Some e \<Rightarrow> Inl e
      | None \<Rightarrow>
         (case randint (entropy a) start endp of
            Inl e \<Rightarrow> Inl e
          | Inr port \<Rightarrow>
             (case net_connections a of
                Inl e \<Rightarrow> Inl e
              | Inr ports \<Rightarrow>
                 if port \<in> set ports then Inl (PyException (PortInUse port))
                 else bound_port a port)))"

text \<open>
  The loop \<^verbatim>\<open>for i in range(n_tries)\<close>: the bare \<^verbatim>\<open>except\<close> swallows the exception
  of every pass but the last, which re-raises it. When the range is empty the function
  falls off its end, and the call returns \<^verbatim>\<open>None\<close>: the result \<open>Inr None\<close>.
\<close>

function reserve_loop ::
  "(nat \<Rightarrow> attempt) \<Rightarrow> int \<Rightarrow> int \<Rightarrow> int \<Rightarrow> int \<Rightarrow> exn + int option" where
  "reserve_loop os start endp n_tries i =
     (if i < n_tries then
        (case reserve_attempt (os (nat i)) start endp of
           Inr port \<Rightarrow> Inr (Some port)
         | Inl e \<Rightarrow> if i = n_tries - 1 then Inl e
                    else reserve_loop os start endp n_tries (i + 1))
      else Inr None)"
  by pat_completeness auto
termination
  by (relation "measure (\<lambda>(os, start, endp, n_tries, i). nat (n_tries - i))") auto

declare reserve_loop.simps [simp del]

definition get_reserved_port ::
  "(nat \<Rightarrow> attempt) \<Rightarrow> int \<Rightarrow> int \<Rightarrow> int \<Rightarrow> exn + int option" where
  "get_reserved_port os start endp n_tries = reserve_loop os start endp n_tries 0"

subsection \<open>The spawner object\<close>

text \<open>
  \<^verbatim>\<open>user_options\<close>, the dict that \<^verbatim>\<open>options_from_form\<close> builds: its six keys are the
  form-field traits \<^verbatim>\<open>lcg_rel_field\<close> ('LCG-rel'), \<^verbatim>\<open>platform_field\<close> ('platform'),
  \<^verbatim>\<open>user_script_env_field\<close> ('scriptenv'), \<^verbatim>\<open>spark_cluster_field\<close> ('spark-cluster'),
  \<^verbatim>\<open>user_n_cores\<close> ('ncores') and \<^verbatim>\<open>user_memory\<close> ('memory'), in this order of
  insertion. These traits are not configurable (no \<^verbatim>\<open>config=True\<close>) and are taken at
  their default values.
\<close>

definition lcg_rel_field :: string where "lcg_rel_field = ''LCG-rel''"
definition platform_field :: string where "platform_field = ''platform''"
definition user_script_env_field :: string where "user_script_env_field = ''scriptenv''"
definition spark_cluster_field :: string where "spark_cluster_field = ''spark-cluster''"
definition user_n_cores :: string where "user_n_cores = ''ncores''"
definition user_memory :: string where "user_memory = ''memory''"

record options =
  opt_lcg_rel :: string
  opt_platform :: string
  opt_scriptenv :: string
  opt_spark_cluster :: string
  opt_ncores :: int
  opt_memory :: string

text \<open>The configurable traits of the class (lines 42-191) that the methods read.\<close>

record config =
  lcg_view_path :: string
  auth_script :: string
  hadoop_auth_script :: string
  init_k8s_user :: string
  local_home :: bool
  eos_path_prefix :: string
  yarn_config_script :: string
  k8s_config_script :: string
  spark_max_sessions :: int
  spark_session_num_ports :: int
  spark_session_port_range_start :: int
  spark_session_port_range_end :: int
  available_cores :: "string list"
  available_memory :: "string list"
  graphite_metric_path :: string
  extra_env :: "string \<rightharpoonup> string"
  metrics_on :: bool

text \<open>
  A value of the dict \<^verbatim>\<open>extra_host_config['port_bindings']\<close>: the tuple
  \<^verbatim>\<open>(self.host_ip,)\<close> of line 253 or the reserved port of line 278. A port is an
  \<^typ>\<open>int option\<close> because \<^verbatim>\<open>get_reserved_port\<close> can return \<^verbatim>\<open>None\<close>.
\<close>

datatype binding = HostIp string | HostPort "int option"

record host_config =
  port_bindings :: "int option \<rightharpoonup> binding"
  cpu_period :: "int option"
  cpu_quota :: "int option"

record create_kwargs =
  ports :: "int option list"

text \<open>
  Everything a method does to the outside, in the order it does it: a helper started
  with \<^verbatim>\<open>subprocess.call\<close> (tagged by the place of the call: line 301, line 341,
  lines 358 and 368), a log record, a batch of metrics sent to Graphite, a call of
  \<^verbatim>\<open>get_reserved_port\<close>.
\<close>

datatype helper = HomeAuth | InitK8sUser | HadoopAuth

datatype level = DEBUG | INFO | ERROR

type_synonym metric = "string \<times> int \<times> int"

datatype logrec =
    CredentialsRequested string
  | StartExceptionMetric metric
  | ExitReturnCodeMetric metric
  | FailedToSendMetrics exn
  | PortAllocationError exn

datatype event =
    Subprocess helper "string list"
  | Log level logrec
  | GraphiteSend "metric list"
  | ReservePort int int

text \<open>
  The attributes of \<^verbatim>\<open>self\<close>. \<open>extra_host_config\<close> and \<open>extra_create_kwargs\<close> are
  \<open>None\<close> when the upstream class has no such attribute (\<^verbatim>\<open>hasattr\<close> is false: the
  Kubernetes spawner). \<open>user_name\<close> is \<^verbatim>\<open>self.user.name\<close>, \<open>cookie_name\<close> is
  \<^verbatim>\<open>self.user.server.cookie_name\<close>, \<open>user_base_url\<close> is \<^verbatim>\<open>self.user.base_url\<close>,
  \<open>hub_base_url\<close> and \<open>hub_api_url\<close> are \<^verbatim>\<open>self.hub.base_url\<close> and
  \<^verbatim>\<open>self.hub.api_url\<close>. \<open>clock_reads\<close> counts the readings of the clock, and
  \<open>trace\<close> holds the events so far.
\<close>

record spawner =
  user_name :: string
  cookie_name :: string
  user_base_url :: string
  hub_base_url :: string
  hub_api_url :: string
  this_host :: string
  user_options :: options
  offload :: bool
  env :: "string \<rightharpoonup> string"
  extra_host_config :: "host_config option"
  extra_create_kwargs :: "create_kwargs option"
  use_internal_ip :: bool
  port :: int
  host_ip :: string
  cpu_limit :: "int option"
  mem_limit :: "string option"
  clock_reads :: nat
  trace :: "event list"

text \<open>
  The answers of the machine and of the upstream class, as they are at the moment the
  method asks (a method asks for each answer once):
  \<^item> \<open>subprocess_call h argv\<close>: the return code of \<^verbatim>\<open>subprocess.call(argv, timeout=60)\<close>
    at the place \<open>h\<close>, or the exception it raises (TimeoutExpired, OSError);
  \<^item> \<open>path_exists\<close>: \<^verbatim>\<open>os.path.exists\<close>; \<open>read_file\<close>: \<^verbatim>\<open>open(path, 'r').read()\<close>;
  \<^item> \<open>utcnow n\<close>: the seconds since the epoch at the \<open>n\<close>-th reading of the clock;
  \<^item> \<open>graphite_send\<close>: the exception of \<^verbatim>\<open>_send_graphite_metrics\<close> (lines 621-632:
    pickling and one TCP connection), if it raises;
  \<^item> \<open>getpwnam\<close>: the uid of \<^verbatim>\<open>pwd.getpwnam(name)\<close>, \<open>None\<close> for an unknown user;
  \<^item> \<open>nodename\<close>: \<^verbatim>\<open>os.uname().nodename\<close>;
  \<^item> \<open>super_get_env\<close>: the dict \<^verbatim>\<open>super().get_env()\<close> returns;
  \<^item> \<open>port_os k i\<close>: the machine at pass \<open>i\<close> of the \<open>k\<close>-th call of
    \<^verbatim>\<open>get_reserved_port\<close>.
\<close>

record world =
  subprocess_call :: "helper \<Rightarrow> string list \<Rightarrow> exn + int"
  path_exists :: "string \<Rightarrow> bool"
  read_file :: "string \<Rightarrow> exn + string"
  utcnow :: "nat \<Rightarrow> int"
  graphite_send :: "metric list \<Rightarrow> exn option"
  getpwnam :: "string \<Rightarrow> nat option"
  nodename :: string
  super_get_env :: "string \<rightharpoonup> string"
  port_os :: "nat \<Rightarrow> nat \<Rightarrow> attempt"

definition emit :: "event \<Rightarrow> spawner \<Rightarrow> spawner" where
  "emit ev sp = sp\<lparr>trace := trace sp @ [ev]\<rparr>"

subsection \<open>\<^verbatim>\<open>options_from_form\<close> (lines 199-210)\<close>

text \<open>
  \<^verbatim>\<open>int(s)\<close> for a string: white space is stripped from both ends, a sign may come
  first, then decimal digits, where single underscores may stand between digits.
\<close>

definition is_decimal :: "char \<Rightarrow> bool" where
  "is_decimal c = (c \<in> set ''0123456789'')"

definition is_space :: "char \<Rightarrow> bool" where
  "is_space c = (of_char c \<in> set [9, 10, 11, 12, 13, 28, 29, 30, 31, 32, 133, 160 :: nat])"

definition strip :: "string \<Rightarrow> string" where
  "strip s = rev (dropWhile is_space (rev (dropWhile is_space s)))"

fun digits_ok :: "string \<Rightarrow> bool" where
  "digits_ok [] = False"
| "digits_ok [c] = is_decimal c"
| "digits_ok (c # d # cs) =
     (is_decimal c \<and> (if d = CHR ''_'' then digits_ok cs else digits_ok (d # cs)))"

definition digit_value :: "char \<Rightarrow> int" where
  "digit_value c = int (of_char c) - 48"

definition decimal_value :: "string \<Rightarrow> int" where
  "decimal_value ds = foldl (\<lambda>acc c. 10 * acc + digit_value c) 0 (filter is_decimal ds)"

definition py_int :: "string \<Rightarrow> exn + int" where
  "py_int s =
     (case strip s of
        [] \<Rightarrow> Inl (ValueError (InvalidLiteral s))
      | c # cs \<Rightarrow>
          if c = CHR ''-'' then
            (if digits_ok cs then Inr (- decimal_value cs) else Inl (ValueError (InvalidLiteral s)))
          else if c = CHR ''+'' then
            (if digits_ok cs then Inr (decimal_value cs) else Inl (ValueError (InvalidLiteral s)))
          else
            (if digits_ok (c # cs) then Inr (decimal_value (c # cs))
             else Inl (ValueError (InvalidLiteral s))))"

text \<open>\<^verbatim>\<open>formdata[key][0]\<close>: KeyError without the key, IndexError on an empty list.\<close>

definition form_first :: "(string \<rightharpoonup> string list) \<Rightarrow> string \<Rightarrow> exn + string" where
  "form_first formdata key =
     (case formdata key of
        None \<Rightarrow> Inl (KeyError key)
      | Some [] \<Rightarrow> Inl IndexError
      | Some (v # vs) \<Rightarrow> Inr v)"

text \<open>\<^verbatim>\<open>xs[0]\<close> of a list trait.\<close>

definition first_option :: "string list \<Rightarrow> exn + string" where
  "first_option xs = (case xs of [] \<Rightarrow> Inl IndexError | x # rest \<Rightarrow> Inr x)"

text \<open>
  Line 204: the cluster of the form, \<^verbatim>\<open>'none'\<close> when the form has no such field.
\<close>

definition form_cluster :: "(string \<rightharpoonup> string list) \<Rightarrow> exn + string" where
  "form_cluster formdata =
     (case formdata spark_cluster_field of
        None \<Rightarrow> Inr ''none''
      | Some vs \<Rightarrow> form_first formdata spark_cluster_field)"

text \<open>
  Line 205: \<^verbatim>\<open>int(submitted) if submitted in self.available_cores else
  int(self.available_cores[0])\<close>.
\<close>

definition form_cores :: "config \<Rightarrow> (string \<rightharpoonup> string list) \<Rightarrow> exn + int" where
  "form_cores cfg formdata =
     (case form_first formdata user_n_cores of
        Inl e \<Rightarrow> Inl e
      | Inr submitted \<Rightarrow>
          if submitted \<in> set (available_cores cfg) then py_int submitted
          else (case first_option (available_cores cfg) of
                  Inl e \<Rightarrow> Inl e
                | Inr x \<Rightarrow> py_int x))"

text \<open>
  Line 206: \<^verbatim>\<open>submitted + 'G' if submitted in self.available_memory else
  self.available_memory[0] + 'G'\<close>.
\<close>

definition form_memory :: "config \<Rightarrow> (string \<rightharpoonup> string list) \<Rightarrow> exn + string" where
  "form_memory cfg formdata =
     (case form_first formdata user_memory of
        Inl e \<Rightarrow> Inl e
      | Inr submitted \<Rightarrow>
          if submitted \<in> set (available_memory cfg) then Inr (submitted @ ''G'')
          else (case first_option (available_memory cfg) of
                  Inl e \<Rightarrow> Inl e
                | Inr x \<Rightarrow> Inr (x @ ''G'')))"

text \<open>
  The method: the six entries are computed in the order of lines 201-206, the first
  exception ends the call, and line 208 sets \<^verbatim>\<open>self.offload\<close> before the dict is
  returned.
\<close>

definition options_from_form ::
  "config \<Rightarrow> (string \<rightharpoonup> string list) \<Rightarrow> spawner \<Rightarrow> (exn + options) \<times> spawner" where
  "options_from_form cfg formdata sp =
     (case form_first formdata lcg_rel_field of
        Inl e \<Rightarrow> (Inl e, sp)
      | Inr rel \<Rightarrow>
     (case form_first formdata platform_field of
        Inl e \<Rightarrow> (Inl e, sp)
      | Inr plat \<Rightarrow>
     (case form_first formdata user_script_env_field of
        Inl e \<Rightarrow> (Inl e, sp)
      | Inr script \<Rightarrow>
     (case form_cluster formdata of
        Inl e \<Rightarrow> (Inl e, sp)
      | Inr cluster \<Rightarrow>
     (case form_cores cfg formdata of
        Inl e \<Rightarrow> (Inl e, sp)
      | Inr cores \<Rightarrow>
     (case form_memory cfg formdata of
        Inl e \<Rightarrow> (Inl e, sp)
      | Inr mem \<Rightarrow>
          (Inr \<lparr>opt_lcg_rel = rel, opt_platform = plat, opt_scriptenv = script,
                opt_spark_cluster = cluster, opt_ncores = cores, opt_memory = mem\<rparr>,
           sp\<lparr>offload := (cluster \<noteq> ''none'')\<rparr>)))))))"

subsection \<open>Telemetry (lines 524-619)\<close>

definition get_date_seconds :: "world \<Rightarrow> spawner \<Rightarrow> int \<times> spawner" where
  "get_date_seconds w sp = (utcnow w (clock_reads sp), sp\<lparr>clock_reads := Suc (clock_reads sp)\<rparr>)"

definition get_base_metric_path :: "config \<Rightarrow> spawner \<Rightarrow> string" where
  "get_base_metric_path cfg sp = join_str ''.'' [graphite_metric_path cfg, this_host sp]"

text \<open>
  \<^verbatim>\<open>str.isdigit\<close>: a non-empty string of digits; below code point 256 the digits are
  0-9 and the superscripts two, three and one.
\<close>

definition is_digit :: "char \<Rightarrow> bool" where
  "is_digit c = (is_decimal c \<or> of_char c \<in> set [178, 179, 185 :: nat])"

definition isdigit :: "string \<Rightarrow> bool" where
  "isdigit s = (s \<noteq> [] \<and> list_all is_digit s)"

text \<open>
  \<^verbatim>\<open>re.search('ExitCode=(\d+)', s)\<close>: the leftmost place where \<^verbatim>\<open>ExitCode=\<close> is
  followed by a decimal digit; the group is the longest run of digits there.
\<close>

fun re_search_exit_code :: "string \<Rightarrow> string option" where
  "re_search_exit_code [] = None"
| "re_search_exit_code (c # cs) =
     (if starts_with ''ExitCode='' (c # cs) \<and> takeWhile is_decimal (drop 9 (c # cs)) \<noteq> []
      then Some (takeWhile is_decimal (drop 9 (c # cs)))
      else re_search_exit_code cs)"

text \<open>
  The exit status handed to \<^verbatim>\<open>_send_exit_metric\<close>: \<^verbatim>\<open>stop\<close> passes the string "0",
  \<^verbatim>\<open>poll\<close> passes what the upstream \<^verbatim>\<open>poll\<close> returned, a string or an int.
\<close>

datatype status = StatusStr string | StatusInt int

text \<open>Lines 590-597: \<^verbatim>\<open>value_cleaned\<close>; an int has no \<^verbatim>\<open>isdigit\<close>.\<close>

definition value_cleaned :: "status \<Rightarrow> exn + string" where
  "value_cleaned code =
     (case code of
        StatusInt n \<Rightarrow> Inl AttributeError
      | StatusStr s \<Rightarrow>
          if isdigit s then Inr s
          else (case re_search_exit_code s of
                  None \<Rightarrow> Inl (PyException UnknownExitCodeFormat)
                | Some digits \<Rightarrow> Inr digits))"

text \<open>The body of the \<^verbatim>\<open>try\<close> of \<^verbatim>\<open>_send_exit_metric\<close> (lines 584-610).\<close>

definition exit_metric_try ::
  "config \<Rightarrow> world \<Rightarrow> status \<Rightarrow> spawner \<Rightarrow> (exn + unit) \<times> spawner" where
  "exit_metric_try cfg w code sp =
     (if metrics_on cfg then
        (case get_date_seconds w sp of (date, sp1) \<Rightarrow>
           (case value_cleaned code of
              Inl e \<Rightarrow> (Inl e, sp1)
            | Inr v \<Rightarrow>
                (Inr (), emit (Log INFO (ExitReturnCodeMetric
                   (join_str ''.'' [get_base_metric_path cfg sp1, ''container_exit_code'', v],
                    date, 1))) sp1)))
      else (Inr (), sp))"

text \<open>
  \<^verbatim>\<open>_send_exit_metric\<close>: the \<^verbatim>\<open>except Exception\<close> of line 611 logs the exception and
  the method returns.
\<close>

definition send_exit_metric ::
  "config \<Rightarrow> world \<Rightarrow> status \<Rightarrow> spawner \<Rightarrow> (exn + unit) \<times> spawner" where
  "send_exit_metric cfg w code sp =
     (case exit_metric_try cfg w code sp of
        (Inl ex, sp1) \<Rightarrow> (Inr (), emit (Log ERROR (FailedToSendMetrics ex)) sp1)
      | (Inr u, sp1) \<Rightarrow> (Inr u, sp1))"

text \<open>
  \<^verbatim>\<open>_send_start_exception_metric\<close> (lines 552-575); \<open>None\<close> is a successful start.
\<close>

definition send_start_exception_metric ::
  "config \<Rightarrow> world \<Rightarrow> exn option \<Rightarrow> spawner \<Rightarrow> (exn + unit) \<times> spawner" where
  "send_start_exception_metric cfg w start_exception sp =
     (if metrics_on cfg then
        (case get_date_seconds w sp of (date, sp1) \<Rightarrow>
           (Inr (), emit (Log INFO (StartExceptionMetric
              (join_str ''.'' [get_base_metric_path cfg sp1, ''spawn_exception'',
                 (case start_exception of Some e \<Rightarrow> class_name e | None \<Rightarrow> ''None'')],
               date, 1))) sp1))
      else (Inr (), sp))"

text \<open>
  \<^verbatim>\<open>_send_user_metrics\<close> (lines 524-549): one metric for each entry of
  \<^verbatim>\<open>user_options\<close>, in the order of insertion, sent in one batch.
\<close>

definition replace_slash :: "string \<Rightarrow> string" where
  "replace_slash s = map (\<lambda>c. if c = CHR ''/'' then CHR ''_'' else c) s"

definition user_metrics :: "string \<Rightarrow> int \<Rightarrow> options \<Rightarrow> metric list" where
  "user_metrics base_path date opts =
     [(join_str ''.'' [base_path, ''spawn_form'', lcg_rel_field, replace_slash (opt_lcg_rel opts)],
         date, 1),
      (join_str ''.'' [base_path, ''spawn_form'', platform_field, replace_slash (opt_platform opts)],
         date, 1),
      (join_str ''.'' [base_path, ''spawn_form'', user_script_env_field],
         date, if opt_scriptenv opts \<noteq> [] then 1 else 0),
      (join_str ''.'' [base_path, ''spawn_form'', spark_cluster_field,
         replace_slash (opt_spark_cluster opts)], date, 1),
      (join_str ''.'' [base_path, ''spawn_form'', user_n_cores,
         replace_slash (str_int (opt_ncores opts))], date, 1),
      (join_str ''.'' [base_path, ''spawn_form'', user_memory, replace_slash (opt_memory opts)],
         date, 1)]"

definition send_user_metrics :: "config \<Rightarrow> world \<Rightarrow> spawner \<Rightarrow> (exn + unit) \<times> spawner" where
  "send_user_metrics cfg w sp =
     (if metrics_on cfg then
        (case get_date_seconds w sp of (date, sp1) \<Rightarrow>
           (let metrics = user_metrics (get_base_metric_path cfg sp1) date (user_options sp1);
                sp2 = emit (GraphiteSend metrics) sp1
            in (case graphite_send w metrics of
                  Some ex \<Rightarrow> (Inr (), emit (Log ERROR (FailedToSendMetrics ex)) sp2)
                | None \<Rightarrow> (Inr (), sp2))))
      else (Inr (), sp))"

subsection \<open>\<^verbatim>\<open>stop\<close> and \<^verbatim>\<open>poll\<close> (lines 423-444)\<close>

text \<open>
  \<open>super_stop\<close> is the outcome of \<^verbatim>\<open>yield super().stop(now)\<close>: the value it returns, or
  the exception it raises, which leaves \<^verbatim>\<open>stop\<close> at line 426.
\<close>

definition stop ::
  "config \<Rightarrow> world \<Rightarrow> (bool \<Rightarrow> exn + 'r) \<Rightarrow> bool \<Rightarrow> spawner \<Rightarrow> (exn + 'r) \<times> spawner" where
  "stop cfg w super_stop now sp =
     (case super_stop now of
        Inl e \<Rightarrow> (Inl e, sp)
      | Inr stop_result \<Rightarrow>
          (case send_exit_metric cfg w (StatusStr ''0'') sp of
             (Inl e, sp1) \<Rightarrow> (Inl e, sp1)
           | (Inr u, sp1) \<Rightarrow> (Inr stop_result, sp1)))"

definition poll ::
  "config \<Rightarrow> world \<Rightarrow> (exn + status option) \<Rightarrow> spawner \<Rightarrow> (exn + status option) \<times> spawner" where
  "poll cfg w super_poll sp =
     (case super_poll of
        Inl e \<Rightarrow> (Inl e, sp)
      | Inr None \<Rightarrow> (Inr None, sp)
      | Inr (Some container_exit_code) \<Rightarrow>
          (case send_exit_metric cfg w container_exit_code sp of
             (Inl e, sp1) \<Rightarrow> (Inl e, sp1)
           | (Inr u, sp1) \<Rightarrow> (Inr (Some container_exit_code), sp1)))"

subsection \<open>\<^verbatim>\<open>start\<close> (lines 285-421)\<close>

text \<open>Sequencing: an exception ends the sequence and keeps the state reached.\<close>

definition and_then ::
  "(spawner \<Rightarrow> (exn + 'a) \<times> spawner) \<Rightarrow> ('a \<Rightarrow> spawner \<Rightarrow> (exn + 'b) \<times> spawner)
     \<Rightarrow> spawner \<Rightarrow> (exn + 'b) \<times> spawner" where
  "and_then m f sp = (case m sp of (Inl e, sp1) \<Rightarrow> (Inl e, sp1) | (Inr x, sp1) \<Rightarrow> f x sp1)"

text \<open>
  \<^verbatim>\<open>subprocess.call(argv, timeout=60)\<close>: the return code is dropped, an exception
  propagates.
\<close>

definition run_helper :: "world \<Rightarrow> helper \<Rightarrow> string list \<Rightarrow> spawner \<Rightarrow> (exn + unit) \<times> spawner" where
  "run_helper w h argv sp =
     (case subprocess_call w h argv of
        Inl e \<Rightarrow> (Inl e, emit (Subprocess h argv) sp)
      | Inr rc \<Rightarrow> (Inr (), emit (Subprocess h argv) sp))"

text \<open>Lines 299-302: credentials for the home directory.\<close>

definition prime_home_credentials ::
  "config \<Rightarrow> world \<Rightarrow> string \<Rightarrow> spawner \<Rightarrow> (exn + unit) \<times> spawner" where
  "prime_home_credentials cfg w username sp =
     (if \<not> local_home cfg \<and> auth_script cfg \<noteq> [] then
        and_then (run_helper w HomeAuth [''sudo'', auth_script cfg, username])
          (\<lambda>u sp1. (Inr (), emit (Log DEBUG (CredentialsRequested username)) sp1)) sp
      else (Inr (), sp))"

text \<open>Lines 304-316: the software stack and the platform exist.\<close>

definition validate_stack ::
  "config \<Rightarrow> world \<Rightarrow> options \<Rightarrow> spawner \<Rightarrow> (exn + unit) \<times> spawner" where
  "validate_stack cfg w opts sp =
     (if \<not> path_exists w (lcg_view_path cfg) then (Inl (ValueError StackNotInitialised), sp)
      else if \<not> path_exists w
                (lcg_view_path cfg @ ''/'' @ opt_lcg_rel opts @ ''/'' @ opt_platform opts)
        then (Inl (ValueError ConfigurationNotAvailable), sp)
      else (Inr (), sp))"

definition hadoop_host_path :: "string \<Rightarrow> string" where
  "hadoop_host_path username = ''/spark/'' @ username"

definition hadoop_container_path :: string where
  "hadoop_container_path = ''/spark''"

text \<open>Lines 335-337: the three \<^verbatim>\<open>self.env.pop(key, None)\<close>.\<close>

definition clear_tokens :: "spawner \<Rightarrow> (exn + unit) \<times> spawner" where
  "clear_tokens sp =
     (Inr (), sp\<lparr>env := (env sp)(''WEBHDFS_TOKEN'' := None,
                                  ''HADOOP_TOKEN_FILE_LOCATION'' := None,
                                  ''KUBECONFIG'' := None)\<rparr>)"

text \<open>Lines 347-356: the kube-config of the user, after the init-user helper.\<close>

definition set_kubeconfig :: "world \<Rightarrow> string \<Rightarrow> spawner \<Rightarrow> (exn + unit) \<times> spawner" where
  "set_kubeconfig w username sp =
     (if path_exists w (hadoop_host_path username @ ''/k8s-user.config'')
      then (Inr (), sp\<lparr>env := (env sp)(''KUBECONFIG'' \<mapsto>
                                    hadoop_container_path @ ''/k8s-user.config'')\<rparr>)
      else (Inl (RuntimeError CloudContainersConnectProblem), sp))"

definition set_krb5ccname :: "string \<Rightarrow> spawner \<Rightarrow> (exn + unit) \<times> spawner" where
  "set_krb5ccname path sp = (Inr (), sp\<lparr>env := (env sp)(''KRB5CCNAME'' \<mapsto> path)\<rparr>)"

text \<open>Lines 340-376: the helpers of the cluster, \<^verbatim>\<open>k8s\<close> or any other name.\<close>

definition authenticate_cluster ::
  "config \<Rightarrow> world \<Rightarrow> string \<Rightarrow> string \<Rightarrow> spawner \<Rightarrow> (exn + unit) \<times> spawner" where
  "authenticate_cluster cfg w username cluster sp =
     (if cluster = ''k8s'' then
        and_then (run_helper w InitK8sUser [''sudo'', init_k8s_user cfg, username])
          (\<lambda>u. and_then (set_kubeconfig w username)
          (\<lambda>u. and_then (run_helper w HadoopAuth
                            [''sudo'', hadoop_auth_script cfg, ''analytix'', username])
          (\<lambda>u. set_krb5ccname (hadoop_container_path @ ''/krb5cc'')))) sp
      else
        and_then (run_helper w HadoopAuth [''sudo'', hadoop_auth_script cfg, cluster, username])
          (\<lambda>u. set_krb5ccname ''/tmp/krb5cc'') sp)"

text \<open>
  Lines 378-399: the token files. With both files the two entries are set (reading the
  web-storage token file can raise); without them the cluster decides.
\<close>

definition materialize_tokens ::
  "world \<Rightarrow> string \<Rightarrow> string \<Rightarrow> spawner \<Rightarrow> (exn + unit) \<times> spawner" where
  "materialize_tokens w username cluster sp =
     (if path_exists w (hadoop_host_path username @ ''/hadoop.toks'')
         \<and> path_exists w (hadoop_host_path username @ ''/webhdfs.toks'')
      then
        (let sp1 = sp\<lparr>env := (env sp)(''HADOOP_TOKEN_FILE_LOCATION'' \<mapsto>
                                        hadoop_container_path @ ''/hadoop.toks'')\<rparr>
         in (case read_file w (hadoop_host_path username @ ''/webhdfs.toks'') of
               Inl e \<Rightarrow> (Inl e, sp1)
             | Inr token \<Rightarrow> (Inr (), sp1\<lparr>env := (env sp1)(''WEBHDFS_TOKEN'' \<mapsto> token)\<rparr>)))
      else if cluster = ''nxcals'' then (Inl (ValueError NxcalsAccessNotGranted), sp)
      else if cluster = ''k8s'' then (Inr (), sp)
      else (Inl (ValueError TokensMissingUnsupported), sp))"

text \<open>
  Lines 319-399, the block under \<^verbatim>\<open>if self.offload\<close>: the gate of lines 321-327, then
  the stale entries are cleared, the helpers run and the tokens are looked for.
\<close>

definition provision ::
  "config \<Rightarrow> world \<Rightarrow> string \<Rightarrow> options \<Rightarrow> spawner \<Rightarrow> (exn + unit) \<times> spawner" where
  "provision cfg w username opts sp =
     (if offload sp then
        (if opt_spark_cluster opts = ''k8s'' \<and> \<not> contains_str ''dev'' (opt_lcg_rel opts)
         then (Inl (ValueError CloudContainersStackUnsupported), sp)
         else
           and_then clear_tokens
             (\<lambda>u. and_then (authenticate_cluster cfg w username (opt_spark_cluster opts))
             (\<lambda>u. materialize_tokens w username (opt_spark_cluster opts))) sp)
      else (Inr (), sp))"

text \<open>Lines 401-411: the limits, by the kind of the upstream spawner.\<close>

definition update_limits :: "options \<Rightarrow> spawner \<Rightarrow> (exn + unit) \<times> spawner" where
  "update_limits opts sp =
     (Inr (),
      (case extra_host_config sp of
         Some hc \<Rightarrow>
           sp\<lparr>extra_host_config :=
                 Some (hc\<lparr>cpu_period := Some 100000,
                          cpu_quota := Some (100000 * opt_ncores opts)\<rparr>),
              mem_limit := Some (opt_memory opts)\<rparr>
       | None \<Rightarrow>
           sp\<lparr>cpu_limit := Some (opt_ncores opts), mem_limit := Some (opt_memory opts)\<rparr>))"

text \<open>
  Line 417, \<^verbatim>\<open>return startup\<close>. The names bound where the line runs are the local
  names of \<^verbatim>\<open>start\<close>, the names of the enclosing \<^verbatim>\<open>define_SwanSpawner_from\<close> and the
  names the module imports or defines (lines 6-31); no builtin is called
  \<^verbatim>\<open>startup\<close>. Loading any other name raises NameError.
\<close>

definition names_in_scope :: "string list" where
  "names_in_scope =
     [''self'', ''username'', ''platform'', ''lcg_rel'', ''cluster'', ''cpu_quota'',
      ''mem_limit'', ''hadoop_host_path'', ''hadoop_container_path'',
      ''webhdfs_token_file'', ''e'',
      ''base_class'', ''SwanSpawner'',
      ''pickle'', ''struct'', ''re'', ''calendar'', ''datetime'', ''os'', ''pwd'',
      ''subprocess'', ''gen'', ''Unicode'', ''Bool'', ''Int'', ''List'', ''Dict'',
      ''contextlib'', ''random'', ''psutil'', ''socket'', ''SO_REUSEADDR'', ''AF_INET'',
      ''SOCK_STREAM'', ''SOL_SOCKET'', ''gethostname'', ''define_SwanSpawner_from'']"

definition load_name :: "string \<Rightarrow> spawner \<Rightarrow> (exn + unit) \<times> spawner" where
  "load_name name sp = (if name \<in> set names_in_scope then (Inr (), sp) else (Inl (NameError name), sp))"

text \<open>
  Lines 299-415, the body of the \<^verbatim>\<open>try\<close> up to the success metric: the home
  credentials, the checks of the stack, the cluster block, the limits, the metrics of
  the user's choices and the start metric for "no exception".
\<close>

definition start_steps ::
  "config \<Rightarrow> world \<Rightarrow> string \<Rightarrow> options \<Rightarrow> spawner \<Rightarrow> (exn + unit) \<times> spawner" where
  "start_steps cfg w username opts =
     and_then (prime_home_credentials cfg w username)
       (\<lambda>u. and_then (validate_stack cfg w opts)
       (\<lambda>u. and_then (provision cfg w username opts)
       (\<lambda>u. and_then (update_limits opts)
       (\<lambda>u. and_then (send_user_metrics cfg w)
       (\<lambda>u. send_start_exception_metric cfg w None)))))"

text \<open>The body of the \<^verbatim>\<open>try\<close> (lines 299-417): the steps, then \<^verbatim>\<open>return startup\<close>.\<close>

definition start_try ::
  "config \<Rightarrow> world \<Rightarrow> string \<Rightarrow> options \<Rightarrow> spawner \<Rightarrow> (exn + unit) \<times> spawner" where
  "start_try cfg w username opts =
     and_then (start_steps cfg w username opts) (\<lambda>u. load_name ''startup'')"

text \<open>
  \<^verbatim>\<open>start\<close>: lines 291-296 read the user's name and the options, and the handler of
  lines 418-421 sends the failure metric and raises the exception again.
\<close>

definition start :: "config \<Rightarrow> world \<Rightarrow> spawner \<Rightarrow> (exn + unit) \<times> spawner" where
  "start cfg w sp =
     (case start_try cfg w (user_name sp) (user_options sp) sp of
        (Inl e, sp1) \<Rightarrow>
          and_then (send_start_exception_metric cfg w (Some e)) (\<lambda>u sp2. (Inl e, sp2)) sp1
      | (Inr startup, sp1) \<Rightarrow> (Inr startup, sp1))"

subsection \<open>\<^verbatim>\<open>get_env\<close> (lines 212-283)\<close>

text \<open>
  Lines 220-223: the home directory; \<^verbatim>\<open>username[0]\<close> raises IndexError on an empty
  name.
\<close>

definition home_path :: "config \<Rightarrow> string \<Rightarrow> exn + string" where
  "home_path cfg username =
     (if local_home cfg then Inr (''/scratch/'' @ username)
      else (case username of
              [] \<Rightarrow> Inl IndexError
            | c # cs \<Rightarrow> Inr (eos_path_prefix cfg @ ''/'' @ [c] @ ''/'' @ username)))"

text \<open>Lines 225-239: the twelve entries of every session.\<close>

definition session_variables ::
  "config \<Rightarrow> spawner \<Rightarrow> nat \<Rightarrow> string \<Rightarrow> (string \<rightharpoonup> string) \<Rightarrow> (string \<rightharpoonup> string)" where
  "session_variables cfg sp userid homepath e =
     e(''ROOT_LCG_VIEW_NAME'' \<mapsto> opt_lcg_rel (user_options sp),
       ''ROOT_LCG_VIEW_PLATFORM'' \<mapsto> opt_platform (user_options sp),
       ''USER_ENV_SCRIPT'' \<mapsto> opt_scriptenv (user_options sp),
       ''ROOT_LCG_VIEW_PATH'' \<mapsto> lcg_view_path cfg,
       ''USER'' \<mapsto> user_name sp,
       ''USER_ID'' \<mapsto> str_nat userid,
       ''HOME'' \<mapsto> homepath,
       ''JPY_USER'' \<mapsto> user_name sp,
       ''JPY_COOKIE_NAME'' \<mapsto> cookie_name sp,
       ''JPY_BASE_URL'' \<mapsto> user_base_url sp,
       ''JPY_HUB_PREFIX'' \<mapsto> hub_base_url sp,
       ''JPY_HUB_API_URL'' \<mapsto> hub_api_url sp)"

text \<open>
  Lines 216-242: the dict of the upstream class, updated with the entries of the
  session and then with \<^verbatim>\<open>extra_env\<close>. \<^verbatim>\<open>pwd.getpwnam\<close> raises KeyError for an unknown
  user.
\<close>

definition base_variables :: "config \<Rightarrow> world \<Rightarrow> spawner \<Rightarrow> exn + (string \<rightharpoonup> string)" where
  "base_variables cfg w sp =
     (case getpwnam w (user_name sp) of
        None \<Rightarrow> Inl (KeyError (user_name sp))
      | Some userid \<Rightarrow>
          (case home_path cfg (user_name sp) of
             Inl e \<Rightarrow> Inl e
           | Inr homepath \<Rightarrow>
               Inr (session_variables cfg sp userid homepath (super_get_env w)
                    ++ extra_env cfg)))"

text \<open>Lines 247-253: the old port state is cleared, the main port is bound again.\<close>

definition clear_port_state :: "host_config \<Rightarrow> create_kwargs \<Rightarrow> spawner \<Rightarrow> spawner" where
  "clear_port_state hc ck sp =
     sp\<lparr>extra_host_config :=
          Some (hc\<lparr>port_bindings :=
                     (if \<not> use_internal_ip sp then [Some (port sp) \<mapsto> HostIp (host_ip sp)]
                      else Map.empty)\<rparr>),
        extra_create_kwargs := Some (ck\<lparr>ports := []\<rparr>)\<rparr>"

text \<open>Lines 256-265: the entries of the cluster.\<close>

definition cluster_variables ::
  "config \<Rightarrow> world \<Rightarrow> spawner \<Rightarrow> (string \<rightharpoonup> string) \<Rightarrow> (string \<rightharpoonup> string)" where
  "cluster_variables cfg w sp e =
     e(''SPARK_CLUSTER_NAME'' \<mapsto> opt_spark_cluster (user_options sp),
       ''SPARK_USER'' \<mapsto> user_name sp,
       ''SERVER_HOSTNAME'' \<mapsto> nodename w,
       ''MAX_MEMORY'' \<mapsto> opt_memory (user_options sp),
       ''SPARK_CONFIG_SCRIPT'' \<mapsto>
          (if opt_spark_cluster (user_options sp) = ''k8s'' then k8s_config_script cfg
           else yarn_config_script cfg))"

text \<open>\<^verbatim>\<open>str(reserved_port)\<close>.\<close>

definition str_port :: "int option \<Rightarrow> string" where
  "str_port p = (case p of None \<Rightarrow> ''None'' | Some n \<Rightarrow> str_int n)"

text \<open>Lines 278-279: the reserved port is bound to itself and listed.\<close>

definition bind_reserved_port :: "int option \<Rightarrow> spawner \<Rightarrow> spawner" where
  "bind_reserved_port p sp =
     sp\<lparr>extra_host_config :=
          map_option (\<lambda>hc. hc\<lparr>port_bindings := (port_bindings hc)(p \<mapsto> HostPort p)\<rparr>)
            (extra_host_config sp),
        extra_create_kwargs :=
          map_option (\<lambda>ck. ck\<lparr>ports := ports ck @ [p]\<rparr>) (extra_create_kwargs sp)\<rparr>"

text \<open>
  The loop of lines 272-280, with \<open>n\<close> passes left, \<open>k\<close> calls of
  \<^verbatim>\<open>get_reserved_port\<close> made so far and \<^verbatim>\<open>spark_ports\<close> as collected so far. The
  call passes no \<^verbatim>\<open>n_tries\<close>, so the default 10 applies; its exception is logged
  and replaced by RuntimeError.
\<close>

fun reserve_ports ::
  "config \<Rightarrow> world \<Rightarrow> nat \<Rightarrow> nat \<Rightarrow> string list \<Rightarrow> spawner \<Rightarrow> (exn + string list) \<times> spawner" where
  "reserve_ports cfg w 0 k spark_ports sp = (Inr spark_ports, sp)"
| "reserve_ports cfg w (Suc n) k spark_ports sp =
     (let sp1 = emit (ReservePort (spark_session_port_range_start cfg)
                                  (spark_session_port_range_end cfg)) sp
      in (case get_reserved_port (port_os w k) (spark_session_port_range_start cfg)
                 (spark_session_port_range_end cfg) 10 of
            Inl ex \<Rightarrow>
              (Inl (RuntimeError PortAllocationFailed),
               emit (Log ERROR (PortAllocationError ex)) sp1)
          | Inr reserved_port \<Rightarrow>
              reserve_ports cfg w n (Suc k) (spark_ports @ [str_port reserved_port])
                (bind_reserved_port reserved_port sp1)))"

text \<open>
  The method. Lines 246-281 run only when the upstream class has both
  \<^verbatim>\<open>extra_host_config\<close> and \<^verbatim>\<open>extra_create_kwargs\<close>; the ports are reserved only
  under \<^verbatim>\<open>if self.offload\<close>, \<^verbatim>\<open>spark_session_num_ports * spark_max_sessions\<close> of them.
\<close>

definition get_env :: "config \<Rightarrow> world \<Rightarrow> spawner \<Rightarrow> (exn + (string \<rightharpoonup> string)) \<times> spawner" where
  "get_env cfg w sp =
     (case base_variables cfg w sp of
        Inl e \<Rightarrow> (Inl e, sp)
      | Inr env1 \<Rightarrow>
          (case extra_host_config sp of
             None \<Rightarrow> (Inr env1, sp)
           | Some hc \<Rightarrow>
               (case extra_create_kwargs sp of
                  None \<Rightarrow> (Inr env1, sp)
                | Some ck \<Rightarrow>
                    (let sp1 = clear_port_state hc ck sp in
                     if offload sp1 then
                       (case reserve_ports cfg w
                               (nat (spark_session_num_ports cfg * spark_max_sessions cfg))
                               0 [] sp1 of
                          (Inl e, sp2) \<Rightarrow> (Inl e, sp2)
                        | (Inr spark_ports, sp2) \<Rightarrow>
                            (Inr ((cluster_variables cfg w sp1 env1)
                                    (''SPARK_PORTS'' \<mapsto> join_str '','' spark_ports)), sp2))
                     else (Inr env1, sp1)))))"

subsection \<open>Reading the machine and the trace\<close>

text \<open>The helper started with \<open>argv\<close> at the place \<open>h\<close> returns (it does not time out).\<close>

definition helper_returns :: "world \<Rightarrow> helper \<Rightarrow> string list \<Rightarrow> bool" where
  "helper_returns w h argv = (case subprocess_call w h argv of Inl e \<Rightarrow> False | Inr rc \<Rightarrow> True)"

text \<open>
  \<^verbatim>\<open>start\<close> gets as far as the cluster block of line 319: the helper of line 301 returns
  when it is run, and both paths of lines 304 and 311 exist.
\<close>

definition reaches_cluster_block :: "config \<Rightarrow> world \<Rightarrow> spawner \<Rightarrow> bool" where
  "reaches_cluster_block cfg w sp =
     ((local_home cfg \<or> auth_script cfg = []
         \<or> helper_returns w HomeAuth [''sudo'', auth_script cfg, user_name sp])
      \<and> path_exists w (lcg_view_path cfg)
      \<and> path_exists w (lcg_view_path cfg @ ''/'' @ opt_lcg_rel (user_options sp) @ ''/''
                          @ opt_platform (user_options sp)))"

text \<open>Both token files of the user exist (the test of line 379).\<close>

definition token_files_exist :: "world \<Rightarrow> string \<Rightarrow> bool" where
  "token_files_exist w username =
     (path_exists w (hadoop_host_path username @ ''/hadoop.toks'')
      \<and> path_exists w (hadoop_host_path username @ ''/webhdfs.toks''))"

text \<open>
  The events of a trace that start a helper of the cluster block (the init-user helper
  or the Hadoop-auth helper), and those that call \<^verbatim>\<open>get_reserved_port\<close>.
\<close>

fun is_cluster_helper :: "event \<Rightarrow> bool" where
  "is_cluster_helper (Subprocess h argv) = (h = InitK8sUser \<or> h = HadoopAuth)"
| "is_cluster_helper (Log l r) = False"
| "is_cluster_helper (GraphiteSend ms) = False"
| "is_cluster_helper (ReservePort a b) = False"

definition cluster_helper_calls :: "event list \<Rightarrow> event list" where
  "cluster_helper_calls evs = filter is_cluster_helper evs"

fun is_reservation :: "event \<Rightarrow> bool" where
  "is_reservation (ReservePort a b) = True"
| "is_reservation (Subprocess h argv) = False"
| "is_reservation (Log l r) = False"
| "is_reservation (GraphiteSend ms) = False"

definition reservations :: "event list \<Rightarrow> event list" where
  "reservations evs = filter is_reservation evs"

text \<open>
  The attributes of the spawner that \<^verbatim>\<open>get_env\<close> reads: the user and hub attributes, the
  options, the offload flag, whether the upstream class has \<^verbatim>\<open>extra_host_config\<close> and
  \<^verbatim>\<open>extra_create_kwargs\<close>, and the main port.
\<close>

definition read_by_get_env ::
  "spawner \<Rightarrow> (string \<times> string \<times> string \<times> string \<times> string)
               \<times> options \<times> bool \<times> bool \<times> bool \<times> bool \<times> int \<times> string" where
  "read_by_get_env sp =
     ((user_name sp, cookie_name sp, user_base_url sp, hub_base_url sp, hub_api_url sp),
      user_options sp, offload sp,
      extra_host_config sp = None, extra_create_kwargs sp = None,
      use_internal_ip sp, port sp, host_ip sp)"

text \<open>The names of the twelve entries of every session (lines 225-239).\<close>

definition session_entries :: "string list" where
  "session_entries =
     [''ROOT_LCG_VIEW_NAME'', ''ROOT_LCG_VIEW_PLATFORM'', ''USER_ENV_SCRIPT'',
      ''ROOT_LCG_VIEW_PATH'', ''USER'', ''USER_ID'', ''HOME'', ''JPY_USER'',
      ''JPY_COOKIE_NAME'', ''JPY_BASE_URL'', ''JPY_HUB_PREFIX'', ''JPY_HUB_API_URL'']"

text \<open>
  The six entries of the environment that lines 257-281 set for a cluster.
\<close>

definition cluster_entries :: "string list" where
  "cluster_entries =
     [''SPARK_CLUSTER_NAME'', ''SPARK_USER'', ''SERVER_HOSTNAME'', ''MAX_MEMORY'',
      ''SPARK_CONFIG_SCRIPT'', ''SPARK_PORTS'']"

subsection \<open>A sample installation\<close>

text \<open>The traits at their default values (lines 42-191).\<close>

definition default_config :: config where
  "default_config =
     \<lparr>lcg_view_path = ''/cvmfs/sft.cern.ch/lcg/views'',
      auth_script = [],
      hadoop_auth_script = [],
      init_k8s_user = [],
      local_home = False,
      eos_path_prefix = ''/eos/user'',
      yarn_config_script = ''/cvmfs/sft.cern.ch/lcg/etc/hadoop-confext/hadoop-setconf.sh'',
      k8s_config_script = ''/cvmfs/sft.cern.ch/lcg/etc/hadoop-confext/k8s-setconf.sh'',
      spark_max_sessions = 1,
      spark_session_num_ports = 3,
      spark_session_port_range_start = 5001,
      spark_session_port_range_end = 5300,
      available_cores = [''1''],
      available_memory = [''8''],
      graphite_metric_path = ''c5.swan'',
      extra_env = Map.empty,
      metrics_on = True\<rparr>"

text \<open>A site that sets the three helper scripts and offers more cores and memory.\<close>

definition site_config :: config where
  "site_config =
     default_config\<lparr>auth_script := ''/srv/jupyterhub/eos_token.sh'',
                    hadoop_auth_script := ''/srv/jupyterhub/hadoop_token.sh'',
                    init_k8s_user := ''/srv/jupyterhub/init_k8s_user.sh'',
                    available_cores := [''1'', ''2'', ''4''],
                    available_memory := [''8'', ''10'']\<rparr>"

text \<open>
  A pass of the retry loop on a machine where ports 22 and 8000 are in use, and one
  where port 5001 is in use as well.
\<close>

definition free_attempt :: "nat \<Rightarrow> attempt" where
  "free_attempt r =
     \<lparr>socket_error = None, entropy = r, net_connections = Inr [22, 8000],
      setsockopt_error = None, handshake_error = None, ephemeral = 40000\<rparr>"

definition busy_attempt :: attempt where
  "busy_attempt =
     \<lparr>socket_error = None, entropy = 0, net_connections = Inr [22, 5001],
      setsockopt_error = None, handshake_error = None, ephemeral = 40000\<rparr>"

text \<open>
  A machine where every helper returns 0, the stack root holds \<^verbatim>\<open>LCG-dev3/x86_64\<close> and
  \<^verbatim>\<open>LCG_96/x86_64\<close>, the user alice has a kube-config and no token files, and Graphite
  accepts every batch.
\<close>

definition calm_world :: world where
  "calm_world =
     \<lparr>subprocess_call = (\<lambda>h argv. Inr 0),
      path_exists = (\<lambda>p. p \<in> set [''/cvmfs/sft.cern.ch/lcg/views'',
                                    ''/cvmfs/sft.cern.ch/lcg/views/LCG-dev3/x86_64'',
                                    ''/cvmfs/sft.cern.ch/lcg/views/LCG_96/x86_64'',
                                    ''/spark/alice/k8s-user.config'']),
      read_file = (\<lambda>p. Inl (External ''FileNotFoundError'')),
      utcnow = (\<lambda>n. 1572825600 + int n),
      graphite_send = (\<lambda>ms. None),
      getpwnam = (\<lambda>name. if name = ''alice'' then Some 1000 else None),
      nodename = ''swan001'',
      super_get_env = [''PATH'' \<mapsto> ''/usr/bin''],
      port_os = (\<lambda>k i. free_attempt (7 * k + i))\<rparr>"

text \<open>
  The same machine an hour later: the clock has moved and the random draws differ, by
  one length of the default port range.
\<close>

definition later_world :: world where
  "later_world =
     calm_world\<lparr>utcnow := (\<lambda>n. 1572829200 + int n),
                port_os := (\<lambda>k i. free_attempt (7 * k + i + 300))\<rparr>"

text \<open>
  The spawner of alice on the Docker backend, with the options of a form that selects
  \<^verbatim>\<open>LCG-dev3\<close>, \<^verbatim>\<open>x86_64\<close> and no cluster.
\<close>

definition alice :: spawner where
  "alice =
     \<lparr>user_name = ''alice'',
      cookie_name = ''jupyter-hub-token-alice'',
      user_base_url = ''/user/alice'',
      hub_base_url = ''/hub'',
      hub_api_url = ''http://127.0.0.1:8081/hub/api'',
      this_host = ''swan001'',
      user_options = \<lparr>opt_lcg_rel = ''LCG-dev3'', opt_platform = ''x86_64'',
                       opt_scriptenv = [], opt_spark_cluster = ''none'',
                       opt_ncores = 1, opt_memory = ''8G''\<rparr>,
      offload = False,
      env = Map.empty,
      extra_host_config =
        Some \<lparr>port_bindings = Map.empty, cpu_period = None, cpu_quota = None\<rparr>,
      extra_create_kwargs = Some \<lparr>ports = []\<rparr>,
      use_internal_ip = False,
      port = 8888,
      host_ip = ''127.0.0.1'',
      cpu_limit = None,
      mem_limit = None,
      clock_reads = 0,
      trace = []\<rparr>"

text \<open>The same spawner after a form that selected the release \<open>rel\<close> and the cluster \<open>c\<close>.\<close>

definition alice_on :: "string \<Rightarrow> string \<Rightarrow> spawner" where
  "alice_on rel c =
     alice\<lparr>user_options := (user_options alice)\<lparr>opt_lcg_rel := rel, opt_spark_cluster := c\<rparr>,
           offload := True\<rparr>"

text \<open>A form without the cluster field, asking for 2 cores and 16 GB.\<close>

definition swan_form :: "string \<rightharpoonup> string list" where
  "swan_form =
     [''LCG-rel'' \<mapsto> [''LCG-dev3''], ''platform'' \<mapsto> [''x86_64''], ''scriptenv'' \<mapsto> [[]],
      ''ncores'' \<mapsto> [''2''], ''memory'' \<mapsto> [''16'']]"

section \<open>The form\<close>

lemma form_cores_clamped:
  assumes "form_cores cfg formdata = Inr n"
  shows "\<exists>c. form_first formdata user_n_cores = Inr c
     \<and> (c \<in> set (available_cores cfg) \<longrightarrow> py_int c = Inr n)
     \<and> (c \<notin> set (available_cores cfg) \<longrightarrow>
          (\<exists>x xs. available_cores cfg = x # xs \<and> py_int x = Inr n))"
  using assms
  by (auto simp: form_cores_def first_option_def split: sum.splits if_splits list.splits)

lemma form_memory_clamped:
  assumes "form_memory cfg formdata = Inr m"
  shows "\<exists>c. form_first formdata user_memory = Inr c
     \<and> (c \<in> set (available_memory cfg) \<longrightarrow> m = c @ ''G'')
     \<and> (c \<notin> set (available_memory cfg) \<longrightarrow>
          (\<exists>x xs. available_memory cfg = x # xs \<and> m = x @ ''G''))"
  using assms
  by (auto simp: form_memory_def first_option_def split: sum.splits if_splits list.splits)

lemma options_from_form_Inr:
  assumes "options_from_form cfg formdata sp = (Inr opts, sp')"
  shows "form_cores cfg formdata = Inr (opt_ncores opts)"
    and "form_memory cfg formdata = Inr (opt_memory opts)"
    and "form_cluster formdata = Inr (opt_spark_cluster opts)"
    and "sp' = sp\<lparr>offload := (opt_spark_cluster opts \<noteq> ''none'')\<rparr>"
  using assms
  by (auto simp: options_from_form_def split: sum.splits)

text \<open>
  Claim C10. Whenever \<^verbatim>\<open>options_from_form\<close> accepts a form, the core count is the
  submitted one if it is in \<^verbatim>\<open>available_cores\<close> and the first available option
  otherwise (as an int), the memory is the submitted value if it is in
  \<^verbatim>\<open>available_memory\<close> and the first available option otherwise, the accepted memory
  is always an available option followed by \<^verbatim>\<open>G\<close>, and nothing is logged.
\<close>

theorem options_from_form_clamps:
  assumes "options_from_form cfg formdata sp = (Inr opts, sp')"
  shows "\<exists>c m. form_first formdata user_n_cores = Inr c
     \<and> form_first formdata user_memory = Inr m
     \<and> (c \<in> set (available_cores cfg) \<longrightarrow> py_int c = Inr (opt_ncores opts))
     \<and> (c \<notin> set (available_cores cfg) \<longrightarrow>
          (\<exists>x xs. available_cores cfg = x # xs \<and> py_int x = Inr (opt_ncores opts)))
     \<and> (m \<in> set (available_memory cfg) \<longrightarrow> opt_memory opts = m @ ''G'')
     \<and> (m \<notin> set (available_memory cfg) \<longrightarrow>
          (\<exists>x xs. available_memory cfg = x # xs \<and> opt_memory opts = x @ ''G''))
     \<and> (\<exists>q. q \<in> set (available_memory cfg) \<and> opt_memory opts = q @ ''G'')
     \<and> trace sp' = trace sp"
proof -
  from form_cores_clamped[OF options_from_form_Inr(1)[OF assms]]
  obtain c where c: "form_first formdata user_n_cores = Inr c"
     "c \<in> set (available_cores cfg) \<longrightarrow> py_int c = Inr (opt_ncores opts)"
     "c \<notin> set (available_cores cfg) \<longrightarrow>
          (\<exists>x xs. available_cores cfg = x # xs \<and> py_int x = Inr (opt_ncores opts))"
    by blast
  from form_memory_clamped[OF options_from_form_Inr(2)[OF assms]]
  obtain m where m: "form_first formdata user_memory = Inr m"
     "m \<in> set (available_memory cfg) \<longrightarrow> opt_memory opts = m @ ''G''"
     "m \<notin> set (available_memory cfg) \<longrightarrow>
          (\<exists>x xs. available_memory cfg = x # xs \<and> opt_memory opts = x @ ''G'')"
    by blast
  have q: "\<exists>q. q \<in> set (available_memory cfg) \<and> opt_memory opts = q @ ''G''"
  proof (cases "m \<in> set (available_memory cfg)")
    case True
    with m(2) show ?thesis by blast
  next
    case False
    with m(3) obtain x xs where "available_memory cfg = x # xs" "opt_memory opts = x @ ''G''"
      by blast
    then show ?thesis by (intro exI[of _ x]) simp
  qed
  have "trace sp' = trace sp"
    using options_from_form_Inr(4)[OF assms] by simp
  with c m q show ?thesis by blast
qed

text \<open>
  A form asking for 2 cores and 16 GB where 1, 2, 4 cores and 8, 10 GB are offered,
  and one asking for 3 cores and 10 GB.
\<close>

theorem options_from_form_clamps_witness:
  "options_from_form site_config swan_form alice =
     (Inr \<lparr>opt_lcg_rel = ''LCG-dev3'', opt_platform = ''x86_64'', opt_scriptenv = [],
           opt_spark_cluster = ''none'', opt_ncores = 2, opt_memory = ''8G''\<rparr>, alice)
   \<and> options_from_form site_config (swan_form(''ncores'' \<mapsto> [''3''], ''memory'' \<mapsto> [''10''])) alice =
     (Inr \<lparr>opt_lcg_rel = ''LCG-dev3'', opt_platform = ''x86_64'', opt_scriptenv = [],
           opt_spark_cluster = ''none'', opt_ncores = 1, opt_memory = ''10G''\<rparr>, alice)"
proof -
  have a: "options_from_form site_config swan_form alice =
     (Inr \<lparr>opt_lcg_rel = ''LCG-dev3'', opt_platform = ''x86_64'', opt_scriptenv = [],
           opt_spark_cluster = ''none'', opt_ncores = 2, opt_memory = ''8G''\<rparr>, alice)"
    by (simp add: options_from_form_def form_first_def form_cluster_def form_cores_def
          form_memory_def first_option_def swan_form_def site_config_def default_config_def
          lcg_rel_field_def platform_field_def user_script_env_field_def
          spark_cluster_field_def user_n_cores_def user_memory_def alice_def
          py_int_def strip_def is_space_def is_decimal_def digit_value_def decimal_value_def)
  have b: "options_from_form site_config (swan_form(''ncores'' \<mapsto> [''3''], ''memory'' \<mapsto> [''10''])) alice =
     (Inr \<lparr>opt_lcg_rel = ''LCG-dev3'', opt_platform = ''x86_64'', opt_scriptenv = [],
           opt_spark_cluster = ''none'', opt_ncores = 1, opt_memory = ''10G''\<rparr>, alice)"
    by (simp add: options_from_form_def form_first_def form_cluster_def form_cores_def
          form_memory_def first_option_def swan_form_def site_config_def default_config_def
          lcg_rel_field_def platform_field_def user_script_env_field_def
          spark_cluster_field_def user_n_cores_def user_memory_def alice_def
          py_int_def strip_def is_space_def is_decimal_def digit_value_def decimal_value_def)
  from options_from_form_clamps[OF a] a b show ?thesis by simp
qed

section \<open>Port reservation\<close>

lemma reserve_attempt_range:
  assumes "reserve_attempt a lo hi = Inr p" and "\<not> (lo \<le> 0 \<and> 0 \<le> hi)"
  shows "lo \<le> p \<and> p \<le> hi"
proof -
  from assms(1) obtain port where r: "randint (entropy a) lo hi = Inr port"
    and b: "bound_port a port = Inr p"
    by (auto simp: reserve_attempt_def split: option.splits sum.splits if_splits)
  from r have le: "lo \<le> hi" and port: "port = lo + int (entropy a) mod (hi - lo + 1)"
    by (auto simp: randint_def split: if_splits)
  have pos: "0 < hi - lo + 1" using le by simp
  have "0 \<le> int (entropy a) mod (hi - lo + 1)"
    and "int (entropy a) mod (hi - lo + 1) < hi - lo + 1"
    using pos_mod_sign[OF pos] pos_mod_bound[OF pos] by blast+
  with port have rng: "lo \<le> port \<and> port \<le> hi" by linarith
  with assms(2) have "port \<noteq> 0" by auto
  with b have "p = port"
    by (auto simp: bound_port_def split: if_splits option.splits)
  with rng show ?thesis by simp
qed

lemma reserve_loop_result:
  assumes "0 \<le> i" and "i < n_tries"
  shows "(\<exists>p. reserve_loop os lo hi n_tries i = Inr (Some p)
            \<and> (\<exists>j. i \<le> j \<and> j < n_tries \<and> reserve_attempt (os (nat j)) lo hi = Inr p))
       \<or> (\<exists>e. reserve_loop os lo hi n_tries i = Inl e
            \<and> reserve_attempt (os (nat (n_tries - 1))) lo hi = Inl e
            \<and> (\<forall>j. i \<le> j \<and> j < n_tries \<longrightarrow> isl (reserve_attempt (os (nat j)) lo hi)))"
  using assms
proof (induction os lo hi n_tries i rule: reserve_loop.induct)
  case (1 os lo hi n_tries i)
  show ?case
  proof (cases "reserve_attempt (os (nat i)) lo hi")
    case (Inr p)
    then have "reserve_loop os lo hi n_tries i = Inr (Some p)"
      using "1.prems" by (simp add: reserve_loop.simps)
    then show ?thesis using Inr "1.prems" by blast
  next
    case (Inl e)
    show ?thesis
    proof (cases "i = n_tries - 1")
      case True
      then have "reserve_loop os lo hi n_tries i = Inl e"
        using Inl "1.prems" by (simp add: reserve_loop.simps)
      moreover have "\<forall>j. i \<le> j \<and> j < n_tries \<longrightarrow> isl (reserve_attempt (os (nat j)) lo hi)"
      proof (intro allI impI)
        fix j assume "i \<le> j \<and> j < n_tries"
        with True have "j = i" by linarith
        with Inl show "isl (reserve_attempt (os (nat j)) lo hi)" by simp
      qed
      ultimately show ?thesis using True Inl by auto
    next
      case False
      then have lt: "i + 1 < n_tries" using "1.prems" by simp
      have step: "reserve_loop os lo hi n_tries i = reserve_loop os lo hi n_tries (i + 1)"
        using Inl False "1.prems" by (subst reserve_loop.simps) simp
      have ih: "(\<exists>p. reserve_loop os lo hi n_tries (i + 1) = Inr (Some p)
            \<and> (\<exists>j. i + 1 \<le> j \<and> j < n_tries \<and> reserve_attempt (os (nat j)) lo hi = Inr p))
       \<or> (\<exists>e. reserve_loop os lo hi n_tries (i + 1) = Inl e
            \<and> reserve_attempt (os (nat (n_tries - 1))) lo hi = Inl e
            \<and> (\<forall>j. i + 1 \<le> j \<and> j < n_tries \<longrightarrow> isl (reserve_attempt (os (nat j)) lo hi)))"
        using "1.IH"[OF _ Inl False] "1.prems" lt by simp
      then show ?thesis
      proof
        assume "\<exists>p. reserve_loop os lo hi n_tries (i + 1) = Inr (Some p)
            \<and> (\<exists>j. i + 1 \<le> j \<and> j < n_tries \<and> reserve_attempt (os (nat j)) lo hi = Inr p)"
        then obtain p j where "reserve_loop os lo hi n_tries (i + 1) = Inr (Some p)"
          "i + 1 \<le> j" "j < n_tries" "reserve_attempt (os (nat j)) lo hi = Inr p" by blast
        then show ?thesis using step by (intro disjI1) (auto intro!: exI[of _ j])
      next
        assume "\<exists>e. reserve_loop os lo hi n_tries (i + 1) = Inl e
            \<and> reserve_attempt (os (nat (n_tries - 1))) lo hi = Inl e
            \<and> (\<forall>j. i + 1 \<le> j \<and> j < n_tries \<longrightarrow> isl (reserve_attempt (os (nat j)) lo hi))"
        then obtain e' where e': "reserve_loop os lo hi n_tries (i + 1) = Inl e'"
          "reserve_attempt (os (nat (n_tries - 1))) lo hi = Inl e'"
          "\<forall>j. i + 1 \<le> j \<and> j < n_tries \<longrightarrow> isl (reserve_attempt (os (nat j)) lo hi)" by blast
        have "\<forall>j. i \<le> j \<and> j < n_tries \<longrightarrow> isl (reserve_attempt (os (nat j)) lo hi)"
        proof (intro allI impI)
          fix j assume "i \<le> j \<and> j < n_tries"
          then consider "j = i" | "i + 1 \<le> j \<and> j < n_tries" by linarith
          then show "isl (reserve_attempt (os (nat j)) lo hi)"
            using Inl e'(3) by cases auto
        qed
        then show ?thesis using step e' by auto
      qed
    qed
  qed
qed

text \<open>
  Claim C3, as amended. For every call of \<^verbatim>\<open>get_reserved_port\<close> with at least one
  attempt (\<open>1 \<le> n_tries\<close>) on a range that does not hold port 0 (in particular the range
  5001..5001), the call either returns a port of the inclusive range \<open>[lo, hi]\<close>, or
  raises after every one of its \<open>n_tries\<close> attempts has failed. It never returns a value
  outside the range. With no attempt (\<open>n_tries \<le> 0\<close>) the call returns \<^verbatim>\<open>None\<close>, and
  when the port drawn is 0 it returns the port the kernel chose.
\<close>

theorem get_reserved_port_in_range:
  assumes "1 \<le> n_tries" and "\<not> (lo \<le> 0 \<and> 0 \<le> hi)"
  shows "(\<exists>p. get_reserved_port os lo hi n_tries = Inr (Some p) \<and> lo \<le> p \<and> p \<le> hi)
       \<or> (\<exists>e. get_reserved_port os lo hi n_tries = Inl e
            \<and> (\<forall>i. 0 \<le> i \<and> i < n_tries \<longrightarrow> isl (reserve_attempt (os (nat i)) lo hi)))"
proof -
  from assms(1) have "(0::int) \<le> 0" and "0 < n_tries" by simp_all
  from reserve_loop_result[OF this, of os lo hi]
  show ?thesis
  proof
    assume "\<exists>p. reserve_loop os lo hi n_tries 0 = Inr (Some p)
        \<and> (\<exists>j. 0 \<le> j \<and> j < n_tries \<and> reserve_attempt (os (nat j)) lo hi = Inr p)"
    then obtain p j where p: "reserve_loop os lo hi n_tries 0 = Inr (Some p)"
      and j: "reserve_attempt (os (nat j)) lo hi = Inr p" by blast
    from reserve_attempt_range[OF j assms(2)] p show ?thesis
      by (auto simp: get_reserved_port_def)
  next
    assume "\<exists>e. reserve_loop os lo hi n_tries 0 = Inl e
        \<and> reserve_attempt (os (nat (n_tries - 1))) lo hi = Inl e
        \<and> (\<forall>j. 0 \<le> j \<and> j < n_tries \<longrightarrow> isl (reserve_attempt (os (nat j)) lo hi))"
    then show ?thesis by (auto simp: get_reserved_port_def)
  qed
qed

text \<open>
  The range 5001..5001 with the default ten attempts: 5001 on a machine where the port
  is free, the exception of the last attempt where it is in use.
\<close>

theorem get_reserved_port_in_range_witness:
  "(1::int) \<le> 10 \<and> \<not> ((5001::int) \<le> 0 \<and> (0::int) \<le> 5001)
   \<and> get_reserved_port free_attempt 5001 5001 10 = Inr (Some 5001)
   \<and> get_reserved_port (\<lambda>i. busy_attempt) 5001 5001 10 = Inl (PyException (PortInUse 5001))"
  using get_reserved_port_in_range [of 10 5001 5001 free_attempt]
  by (simp add: get_reserved_port_def reserve_loop.simps reserve_attempt_def randint_def
        bound_port_def free_attempt_def busy_attempt_def)

text \<open>
  Claim C3 as stated fails: with \<open>n_tries = 0\<close> the call on 5001..5001 neither returns
  a port nor raises, and on the range 0..0 it returns port 40000.
\<close>

theorem get_reserved_port_counterexample:
  "get_reserved_port free_attempt 5001 5001 0 = Inr None
   \<and> get_reserved_port free_attempt 0 0 10 = Inr (Some 40000)"
  by (simp add: get_reserved_port_def reserve_loop.simps reserve_attempt_def randint_def
        bound_port_def free_attempt_def)

section \<open>Telemetry and \<^verbatim>\<open>stop\<close>\<close>

lemma send_exit_metric_returns: "fst (send_exit_metric cfg w code sp) = Inr ()"
  by (simp add: send_exit_metric_def split: prod.splits sum.splits)

lemma value_cleaned_137: "value_cleaned (StatusStr ''ExitCode=137'') = Inr ''137''"
  by (simp add: value_cleaned_def isdigit_def is_digit_def is_decimal_def)

lemma value_cleaned_0: "value_cleaned (StatusStr ''0'') = Inr ''0''"
  by (simp add: value_cleaned_def isdigit_def is_digit_def is_decimal_def)

lemma send_exit_metric_on:
  assumes "metrics_on cfg"
  shows "send_exit_metric cfg w code sp =
     (case value_cleaned code of
        Inr v \<Rightarrow>
          (Inr (), emit (Log INFO (ExitReturnCodeMetric
             (join_str ''.'' [get_base_metric_path cfg sp, ''container_exit_code'', v],
              utcnow w (clock_reads sp), 1))) (sp\<lparr>clock_reads := Suc (clock_reads sp)\<rparr>))
      | Inl ex \<Rightarrow>
          (Inr (), emit (Log ERROR (FailedToSendMetrics ex))
             (sp\<lparr>clock_reads := Suc (clock_reads sp)\<rparr>)))"
  using assms
  by (simp add: send_exit_metric_def exit_metric_try_def get_date_seconds_def
        get_base_metric_path_def split: sum.splits)

lemma send_exit_metric_off:
  assumes "\<not> metrics_on cfg"
  shows "send_exit_metric cfg w code sp = (Inr (), sp)"
  using assms by (simp add: send_exit_metric_def exit_metric_try_def)

text \<open>
  Claim C9, as amended. \<^verbatim>\<open>_send_exit_metric\<close> never raises to its caller, whatever the
  exit status (a string or an int) and whether metrics are on or off. When metrics are
  on (\<^verbatim>\<open>metrics_on\<close>), the status "ExitCode=137" records the value 137 and "0" records
  0 (the last segment of the metric path that is logged), and a string that is neither
  all digits nor holds \<^verbatim>\<open>ExitCode=<digits>\<close> raises an internal exception that is
  logged as an error and swallowed. When metrics are off nothing is recorded or
  logged.
\<close>

theorem exit_metric_recorded_never_raises:
  "fst (send_exit_metric cfg w code sp) = Inr ()
   \<and> (metrics_on cfg \<longrightarrow>
        send_exit_metric cfg w (StatusStr ''ExitCode=137'') sp =
          (Inr (), emit (Log INFO (ExitReturnCodeMetric
             (join_str ''.'' [get_base_metric_path cfg sp, ''container_exit_code'', ''137''],
              utcnow w (clock_reads sp), 1))) (sp\<lparr>clock_reads := Suc (clock_reads sp)\<rparr>))
      \<and> send_exit_metric cfg w (StatusStr ''0'') sp =
          (Inr (), emit (Log INFO (ExitReturnCodeMetric
             (join_str ''.'' [get_base_metric_path cfg sp, ''container_exit_code'', ''0''],
              utcnow w (clock_reads sp), 1))) (sp\<lparr>clock_reads := Suc (clock_reads sp)\<rparr>))
      \<and> (\<forall>s. \<not> isdigit s \<and> re_search_exit_code s = None \<longrightarrow>
            send_exit_metric cfg w (StatusStr s) sp =
              (Inr (), emit (Log ERROR (FailedToSendMetrics (PyException UnknownExitCodeFormat)))
                         (sp\<lparr>clock_reads := Suc (clock_reads sp)\<rparr>))))"
proof (intro conjI impI allI)
  show "fst (send_exit_metric cfg w code sp) = Inr ()" by (rule send_exit_metric_returns)
next
  assume "metrics_on cfg"
  then show "send_exit_metric cfg w (StatusStr ''ExitCode=137'') sp =
          (Inr (), emit (Log INFO (ExitReturnCodeMetric
             (join_str ''.'' [get_base_metric_path cfg sp, ''container_exit_code'', ''137''],
              utcnow w (clock_reads sp), 1))) (sp\<lparr>clock_reads := Suc (clock_reads sp)\<rparr>))"
    by (simp only: send_exit_metric_on value_cleaned_137 sum.case)
next
  assume "metrics_on cfg"
  then show "send_exit_metric cfg w (StatusStr ''0'') sp =
          (Inr (), emit (Log INFO (ExitReturnCodeMetric
             (join_str ''.'' [get_base_metric_path cfg sp, ''container_exit_code'', ''0''],
              utcnow w (clock_reads sp), 1))) (sp\<lparr>clock_reads := Suc (clock_reads sp)\<rparr>))"
    by (simp only: send_exit_metric_on value_cleaned_0 sum.case)
next
  fix s
  assume on: "metrics_on cfg" and s: "\<not> isdigit s \<and> re_search_exit_code s = None"
  from s have "value_cleaned (StatusStr s) = Inl (PyException UnknownExitCodeFormat)"
    by (simp add: value_cleaned_def)
  with on show "send_exit_metric cfg w (StatusStr s) sp =
              (Inr (), emit (Log ERROR (FailedToSendMetrics (PyException UnknownExitCodeFormat)))
                         (sp\<lparr>clock_reads := Suc (clock_reads sp)\<rparr>))"
    by (simp only: send_exit_metric_on sum.case)
qed

text \<open>The three statuses of the claim on the sample installation, metrics on.\<close>

theorem exit_metric_recorded_never_raises_witness:
  "metrics_on site_config
   \<and> \<not> isdigit ''garbage'' \<and> re_search_exit_code ''garbage'' = None
   \<and> trace (snd (send_exit_metric site_config calm_world (StatusStr ''ExitCode=137'') alice)) =
       [Log INFO (ExitReturnCodeMetric (''c5.swan.swan001.container_exit_code.137'', 1572825600, 1))]
   \<and> trace (snd (send_exit_metric site_config calm_world (StatusStr ''0'') alice)) =
       [Log INFO (ExitReturnCodeMetric (''c5.swan.swan001.container_exit_code.0'', 1572825600, 1))]
   \<and> send_exit_metric site_config calm_world (StatusStr ''garbage'') alice =
       (Inr (), alice\<lparr>clock_reads := 1,
                      trace := [Log ERROR (FailedToSendMetrics (PyException UnknownExitCodeFormat))]\<rparr>)"
  using exit_metric_recorded_never_raises [of site_config calm_world "StatusStr ''garbage''" alice]
  by (simp add: site_config_def default_config_def calm_world_def alice_def emit_def
        get_base_metric_path_def isdigit_def is_digit_def is_decimal_def)

text \<open>
  Claim C9 as stated fails: with metrics off, "ExitCode=137" records nothing and
  "garbage" logs nothing; the spawner is unchanged.
\<close>

theorem exit_metric_counterexample:
  "send_exit_metric (site_config\<lparr>metrics_on := False\<rparr>) calm_world (StatusStr ''ExitCode=137'') alice
     = (Inr (), alice)
   \<and> send_exit_metric (site_config\<lparr>metrics_on := False\<rparr>) calm_world (StatusStr ''garbage'') alice
     = (Inr (), alice)"
  by (simp add: send_exit_metric_def exit_metric_try_def)

text \<open>
  Claim C8, as amended. When the upstream \<^verbatim>\<open>stop\<close> returns, whatever value it returns,
  and metrics are on, \<^verbatim>\<open>stop\<close> then logs an exit metric with code 0 and returns the
  upstream value. When metrics are off it returns the upstream value and emits
  nothing; when the upstream \<^verbatim>\<open>stop\<close> raises, the exception leaves \<^verbatim>\<open>stop\<close> and no
  exit metric is emitted.
\<close>

theorem stop_emits_exit_code_0:
  "(\<forall>r. super_stop now = Inr r \<and> metrics_on cfg \<longrightarrow>
        stop cfg w super_stop now sp =
          (Inr r, emit (Log INFO (ExitReturnCodeMetric
             (join_str ''.'' [get_base_metric_path cfg sp, ''container_exit_code'', ''0''],
              utcnow w (clock_reads sp), 1))) (sp\<lparr>clock_reads := Suc (clock_reads sp)\<rparr>)))
   \<and> (\<forall>r. super_stop now = Inr r \<and> \<not> metrics_on cfg \<longrightarrow>
        stop cfg w super_stop now sp = (Inr r, sp))
   \<and> (\<forall>e. super_stop now = Inl e \<longrightarrow> stop cfg w super_stop now sp = (Inl e, sp))"
  by (simp add: stop_def send_exit_metric_on send_exit_metric_off value_cleaned_0)

text \<open>The three cases on the sample installation.\<close>

theorem stop_emits_exit_code_0_witness:
  "stop site_config calm_world (\<lambda>now. Inr (if now then ''killed'' else ''removed'')) True alice =
     (Inr ''killed'',
      alice\<lparr>clock_reads := 1,
            trace := [Log INFO (ExitReturnCodeMetric
                        (''c5.swan.swan001.container_exit_code.0'', 1572825600, 1))]\<rparr>)
   \<and> stop (site_config\<lparr>metrics_on := False\<rparr>) calm_world
        (\<lambda>now. Inr (if now then ''killed'' else ''removed'')) False alice = (Inr ''removed'', alice)
   \<and> stop site_config calm_world (\<lambda>now. Inl (External ''APIError'') :: exn + string) False alice =
       (Inl (External ''APIError''), alice)"
  using stop_emits_exit_code_0 [of "\<lambda>now. Inr (if now then ''killed'' else ''removed'')" True
          site_config calm_world alice]
    stop_emits_exit_code_0 [of "\<lambda>now. Inr (if now then ''killed'' else ''removed'')" False
          "site_config\<lparr>metrics_on := False\<rparr>" calm_world alice]
    stop_emits_exit_code_0 [of "\<lambda>now. Inl (External ''APIError'') :: exn + string" False
          site_config calm_world alice]
  by (simp add: site_config_def default_config_def calm_world_def alice_def emit_def
        get_base_metric_path_def)

text \<open>
  Claim C8 as stated fails: with metrics off the trace of events stays empty after
  \<^verbatim>\<open>stop\<close>, and when the upstream \<^verbatim>\<open>stop\<close> raises the spawner is unchanged.
\<close>

theorem stop_counterexample:
  "trace (snd (stop (site_config\<lparr>metrics_on := False\<rparr>) calm_world
                 (\<lambda>now. Inr ''removed'' :: exn + string) False alice)) = []
   \<and> stop site_config calm_world (\<lambda>now. Inl (External ''APIError'') :: exn + string) False alice =
       (Inl (External ''APIError''), alice)
   \<and> trace alice = []"
  by (simp add: stop_def send_exit_metric_off alice_def)

section \<open>\<^verbatim>\<open>start\<close>\<close>

lemma and_then_cases:
  obtains (raised) e sp1 where "m sp = (Inl e, sp1)" "and_then m f sp = (Inl e, sp1)"
  | (returned) x sp1 where "m sp = (Inr x, sp1)" "and_then m f sp = f x sp1"
proof (cases "m sp")
  case (Pair r sp1)
  then show ?thesis
    by (cases r) (auto intro: raised returned simp: and_then_def)
qed

lemma load_name_startup: "load_name ''startup'' sp = (Inl (NameError ''startup''), sp)"
  by (simp add: load_name_def names_in_scope_def)

lemma start_try_raises: "\<exists>e. fst (start_try cfg w username opts sp) = Inl e"
  unfolding start_try_def
  by (rule and_then_cases[of "start_steps cfg w username opts" sp "\<lambda>u. load_name ''startup''"])
     (simp_all add: load_name_startup)

lemma send_start_exception_metric_returns:
  "fst (send_start_exception_metric cfg w x sp) = Inr ()"
  by (simp add: send_start_exception_metric_def get_date_seconds_def split: prod.splits)

lemma start_reraises:
  assumes "start_try cfg w (user_name sp) (user_options sp) sp = (Inl e, sp1)"
  shows "start cfg w sp = (Inl e, snd (send_start_exception_metric cfg w (Some e) sp1))"
proof -
  obtain r sp2 where m: "send_start_exception_metric cfg w (Some e) sp1 = (r, sp2)"
    by (cases "send_start_exception_metric cfg w (Some e) sp1")
  with send_start_exception_metric_returns[of cfg w "Some e" sp1] have "r = Inr ()" by simp
  with m assms show ?thesis by (simp add: start_def and_then_def)
qed

text \<open>
  Every call of \<^verbatim>\<open>start\<close> raises: either a step of lines 299-415 raises, or line 417
  does. No call returns a value to the caller.
\<close>

theorem start_never_returns: "\<exists>e. fst (start cfg w sp) = Inl e"
proof -
  obtain r sp1 where t: "start_try cfg w (user_name sp) (user_options sp) sp = (r, sp1)"
    by (cases "start_try cfg w (user_name sp) (user_options sp) sp")
  with start_try_raises[of cfg w "user_name sp" "user_options sp" sp]
  obtain e where "r = Inl e" by auto
  with t start_reraises[of cfg w sp e sp1] show ?thesis by simp
qed

text \<open>
  Claim C1 says that a start whose provisioning and validation succeed emits the success
  metric and then completes normally. The code does not: whenever the steps of lines
  299-415 all succeed (the success metric included), line 417 loads the name
  \<^verbatim>\<open>startup\<close>, which nothing binds, and \<^verbatim>\<open>start\<close> raises NameError after the handler of
  line 418 has sent the failure metric for it.
\<close>

theorem start_raises_NameError:
  assumes "start_steps cfg w (user_name sp) (user_options sp) sp = (Inr (), sp1)"
  shows "start cfg w sp =
           (Inl (NameError ''startup''),
            snd (send_start_exception_metric cfg w (Some (NameError ''startup'')) sp1))"
proof -
  from assms have "start_try cfg w (user_name sp) (user_options sp) sp
      = (Inl (NameError ''startup''), sp1)"
    by (simp add: start_try_def and_then_def load_name_startup)
  then show ?thesis by (rule start_reraises)
qed

lemma start_steps_alice:
  "start_steps site_config calm_world (user_name alice) (user_options alice) alice =
     (Inr (),
      alice\<lparr>extra_host_config :=
              Some \<lparr>port_bindings = Map.empty, cpu_period = Some 100000, cpu_quota = Some 100000\<rparr>,
            mem_limit := Some ''8G'',
            clock_reads := 2,
            trace :=
              [Subprocess HomeAuth [''sudo'', ''/srv/jupyterhub/eos_token.sh'', ''alice''],
               Log DEBUG (CredentialsRequested ''alice''),
               GraphiteSend
                 [(''c5.swan.swan001.spawn_form.LCG-rel.LCG-dev3'', 1572825600, 1),
                  (''c5.swan.swan001.spawn_form.platform.x86_64'', 1572825600, 1),
                  (''c5.swan.swan001.spawn_form.scriptenv'', 1572825600, 0),
                  (''c5.swan.swan001.spawn_form.spark-cluster.none'', 1572825600, 1),
                  (''c5.swan.swan001.spawn_form.ncores.1'', 1572825600, 1),
                  (''c5.swan.swan001.spawn_form.memory.8G'', 1572825600, 1)],
               Log INFO (StartExceptionMetric
                           (''c5.swan.swan001.spawn_exception.None'', 1572825601, 1))]\<rparr>)"
  by (simp add: start_steps_def and_then_def prime_home_credentials_def run_helper_def
        validate_stack_def provision_def update_limits_def send_user_metrics_def
        send_start_exception_metric_def get_date_seconds_def get_base_metric_path_def
        user_metrics_def replace_slash_def str_int_def str_nat.simps digit_char_def emit_def
        lcg_rel_field_def platform_field_def user_script_env_field_def
        spark_cluster_field_def user_n_cores_def user_memory_def
        site_config_def default_config_def calm_world_def alice_def)

text \<open>
  The sample session with no cluster: the success metric is logged, then the failure
  metric for NameError, and \<^verbatim>\<open>start\<close> raises.
\<close>

theorem start_raises_NameError_witness:
  "fst (start site_config calm_world alice) = Inl (NameError ''startup'')
   \<and> trace (snd (start site_config calm_world alice)) =
       [Subprocess HomeAuth [''sudo'', ''/srv/jupyterhub/eos_token.sh'', ''alice''],
        Log DEBUG (CredentialsRequested ''alice''),
        GraphiteSend
          [(''c5.swan.swan001.spawn_form.LCG-rel.LCG-dev3'', 1572825600, 1),
           (''c5.swan.swan001.spawn_form.platform.x86_64'', 1572825600, 1),
           (''c5.swan.swan001.spawn_form.scriptenv'', 1572825600, 0),
           (''c5.swan.swan001.spawn_form.spark-cluster.none'', 1572825600, 1),
           (''c5.swan.swan001.spawn_form.ncores.1'', 1572825600, 1),
           (''c5.swan.swan001.spawn_form.memory.8G'', 1572825600, 1)],
        Log INFO (StartExceptionMetric (''c5.swan.swan001.spawn_exception.None'', 1572825601, 1)),
        Log INFO (StartExceptionMetric
                    (''c5.swan.swan001.spawn_exception.NameError'', 1572825602, 1))]"
  using start_raises_NameError [OF start_steps_alice]
  by (simp add: send_start_exception_metric_def get_date_seconds_def get_base_metric_path_def
        emit_def site_config_def default_config_def calm_world_def alice_def)

lemma cluster_helper_calls_append [simp]:
  "cluster_helper_calls (xs @ ys) = cluster_helper_calls xs @ cluster_helper_calls ys"
  by (simp add: cluster_helper_calls_def)

lemma prime_home_credentials_effect:
  assumes "prime_home_credentials cfg w u sp = (r, sp1)"
  shows "\<exists>evs. sp1 = sp\<lparr>trace := trace sp @ evs\<rparr> \<and> cluster_helper_calls evs = []"
proof (cases "\<not> local_home cfg \<and> auth_script cfg \<noteq> []")
  case False
  with assms have "sp1 = sp\<lparr>trace := trace sp @ []\<rparr>"
    by (auto simp: prime_home_credentials_def)
  then show ?thesis by (intro exI[of _ "[]"]) (simp add: cluster_helper_calls_def)
next
  case True
  show ?thesis
  proof (cases "subprocess_call w HomeAuth [''sudo'', auth_script cfg, u]")
    case (Inl e)
    with True assms
    have "sp1 = sp\<lparr>trace := trace sp @ [Subprocess HomeAuth [''sudo'', auth_script cfg, u]]\<rparr>"
      by (auto simp: prime_home_credentials_def and_then_def run_helper_def emit_def)
    then show ?thesis
      by (intro exI[of _ "[Subprocess HomeAuth [''sudo'', auth_script cfg, u]]"])
         (simp add: cluster_helper_calls_def)
  next
    case (Inr rc)
    with True assms
    have "sp1 = sp\<lparr>trace := trace sp @ [Subprocess HomeAuth [''sudo'', auth_script cfg, u],
                                          Log DEBUG (CredentialsRequested u)]\<rparr>"
      by (auto simp: prime_home_credentials_def and_then_def run_helper_def emit_def)
    then show ?thesis
      by (intro exI[of _ "[Subprocess HomeAuth [''sudo'', auth_script cfg, u],
                           Log DEBUG (CredentialsRequested u)]"])
         (simp add: cluster_helper_calls_def)
  qed
qed

lemma prime_home_credentials_returns:
  assumes "local_home cfg \<or> auth_script cfg = [] \<or> helper_returns w HomeAuth [''sudo'', auth_script cfg, u]"
  shows "fst (prime_home_credentials cfg w u sp) = Inr ()"
  using assms
  by (auto simp: prime_home_credentials_def and_then_def run_helper_def helper_returns_def
           split: sum.splits)

lemma start_exception_metric_helpers:
  "cluster_helper_calls (trace (snd (send_start_exception_metric cfg w x sp)))
     = cluster_helper_calls (trace sp)"
  by (simp add: send_start_exception_metric_def get_date_seconds_def emit_def
        cluster_helper_calls_def)

text \<open>What start does up to the cluster block.\<close>

lemma start_prefix:
  obtains (early) e evs where
      "start_steps cfg w (user_name sp) (user_options sp) sp
         = (Inl e, sp\<lparr>trace := trace sp @ evs\<rparr>)"
      "cluster_helper_calls evs = []" "\<not> reaches_cluster_block cfg w sp"
  | (reached) evs where
      "start_steps cfg w (user_name sp) (user_options sp) sp
         = and_then (provision cfg w (user_name sp) (user_options sp))
             (\<lambda>u. and_then (update_limits (user_options sp))
             (\<lambda>u. and_then (send_user_metrics cfg w)
             (\<lambda>u. send_start_exception_metric cfg w None)))
             (sp\<lparr>trace := trace sp @ evs\<rparr>)"
      "cluster_helper_calls evs = []"
proof -
  obtain r1 sp1 where p: "prime_home_credentials cfg w (user_name sp) sp = (r1, sp1)"
    by (cases "prime_home_credentials cfg w (user_name sp) sp")
  from prime_home_credentials_effect[OF p] obtain evs
    where sp1: "sp1 = sp\<lparr>trace := trace sp @ evs\<rparr>" and evs: "cluster_helper_calls evs = []"
    by blast
  show thesis
  proof (cases r1)
    case (Inl e)
    have "\<not> reaches_cluster_block cfg w sp"
    proof
      assume "reaches_cluster_block cfg w sp"
      then have "fst (prime_home_credentials cfg w (user_name sp) sp) = Inr ()"
        by (intro prime_home_credentials_returns) (auto simp: reaches_cluster_block_def)
      with p Inl show False by simp
    qed
    moreover have "start_steps cfg w (user_name sp) (user_options sp) sp
         = (Inl e, sp\<lparr>trace := trace sp @ evs\<rparr>)"
      using p Inl sp1 by (simp add: start_steps_def and_then_def)
    ultimately show ?thesis using evs by (intro early)
  next
    case (Inr u)
    show ?thesis
    proof (cases "path_exists w (lcg_view_path cfg)
        \<and> path_exists w (lcg_view_path cfg @ ''/'' @ opt_lcg_rel (user_options sp) @ ''/''
                          @ opt_platform (user_options sp))")
      case True
      then have "validate_stack cfg w (user_options sp) sp1 = (Inr (), sp1)"
        by (simp add: validate_stack_def)
      with p Inr sp1 have "start_steps cfg w (user_name sp) (user_options sp) sp
         = and_then (provision cfg w (user_name sp) (user_options sp))
             (\<lambda>u. and_then (update_limits (user_options sp))
             (\<lambda>u. and_then (send_user_metrics cfg w)
             (\<lambda>u. send_start_exception_metric cfg w None)))
             (sp\<lparr>trace := trace sp @ evs\<rparr>)"
        by (simp add: start_steps_def and_then_def)
      then show ?thesis using evs by (intro reached)
    next
      case False
      then have "\<exists>e. validate_stack cfg w (user_options sp) sp1 = (Inl e, sp1)"
        by (simp add: validate_stack_def)
      then obtain e where "validate_stack cfg w (user_options sp) sp1 = (Inl e, sp1)" ..
      with p Inr sp1 have "start_steps cfg w (user_name sp) (user_options sp) sp
         = (Inl e, sp\<lparr>trace := trace sp @ evs\<rparr>)"
        by (simp add: start_steps_def and_then_def)
      moreover from False have "\<not> reaches_cluster_block cfg w sp"
        by (auto simp: reaches_cluster_block_def)
      ultimately show ?thesis using evs by (intro early)
    qed
  qed
qed

lemma start_steps_raise:
  assumes "start_steps cfg w (user_name sp) (user_options sp) sp = (Inl e, sp1)"
  shows "start cfg w sp = (Inl e, snd (send_start_exception_metric cfg w (Some e) sp1))"
proof -
  from assms have "start_try cfg w (user_name sp) (user_options sp) sp = (Inl e, sp1)"
    by (simp add: start_try_def and_then_def)
  then show ?thesis by (rule start_reraises)
qed

text \<open>When the cluster block raises, so does start, with the same exception.\<close>

lemma start_provision_raises:
  assumes reach: "reaches_cluster_block cfg w sp"
    and prov: "\<And>evs. provision cfg w (user_name sp) (user_options sp) (sp\<lparr>trace := trace sp @ evs\<rparr>)
                  = (Inl e, sp2 evs)"
  shows "\<exists>evs. start cfg w sp
           = (Inl e, snd (send_start_exception_metric cfg w (Some e) (sp2 evs)))
           \<and> cluster_helper_calls evs = []"
proof (rule start_prefix[of cfg w sp])
  fix e' evs
  assume "\<not> reaches_cluster_block cfg w sp"
  with reach show ?thesis by simp
next
  fix evs
  assume s: "start_steps cfg w (user_name sp) (user_options sp) sp
         = and_then (provision cfg w (user_name sp) (user_options sp))
             (\<lambda>u. and_then (update_limits (user_options sp))
             (\<lambda>u. and_then (send_user_metrics cfg w)
             (\<lambda>u. send_start_exception_metric cfg w None)))
             (sp\<lparr>trace := trace sp @ evs\<rparr>)"
    and evs: "cluster_helper_calls evs = []"
  from s prov[of evs]
  have "start_steps cfg w (user_name sp) (user_options sp) sp = (Inl e, sp2 evs)"
    by (simp add: and_then_def)
  from start_steps_raise[OF this] evs show ?thesis by blast
qed

lemma provision_gate:
  assumes "offload sp" and "opt_spark_cluster opts = ''k8s''"
    and "\<not> contains_str ''dev'' (opt_lcg_rel opts)"
  shows "provision cfg w username opts sp = (Inl (ValueError CloudContainersStackUnsupported), sp)"
  using assms by (simp add: provision_def)

text \<open>
  Claim C4. For every start with offload requested to the cluster \<^verbatim>\<open>k8s\<close> whose release
  name does not contain \<^verbatim>\<open>dev\<close>, the cluster block raises the ValueError "Configuration
  unsupported ..." of line 322 and leaves the spawner as it was; \<^verbatim>\<open>start\<close> starts neither
  the init-user helper nor the Hadoop-auth helper, and when \<^verbatim>\<open>start\<close> gets as far as the
  cluster block this ValueError is the exception it raises.
\<close>

theorem k8s_release_gate_before_helpers:
  assumes off: "offload sp"
    and k8s: "opt_spark_cluster (user_options sp) = ''k8s''"
    and rel: "\<not> contains_str ''dev'' (opt_lcg_rel (user_options sp))"
  shows "provision cfg w (user_name sp) (user_options sp) sp
           = (Inl (ValueError CloudContainersStackUnsupported), sp)
     \<and> cluster_helper_calls (trace (snd (start cfg w sp))) = cluster_helper_calls (trace sp)
     \<and> (reaches_cluster_block cfg w sp \<longrightarrow>
          fst (start cfg w sp) = Inl (ValueError CloudContainersStackUnsupported))"
proof (intro conjI impI)
  show "provision cfg w (user_name sp) (user_options sp) sp
           = (Inl (ValueError CloudContainersStackUnsupported), sp)"
    using off k8s rel by (rule provision_gate)
  have gate: "\<And>evs. provision cfg w (user_name sp) (user_options sp) (sp\<lparr>trace := trace sp @ evs\<rparr>)
        = (Inl (ValueError CloudContainersStackUnsupported), sp\<lparr>trace := trace sp @ evs\<rparr>)"
    using off k8s rel by (intro provision_gate) simp_all
  show "cluster_helper_calls (trace (snd (start cfg w sp))) = cluster_helper_calls (trace sp)"
  proof (rule start_prefix[of cfg w sp])
    fix e evs
    assume s: "start_steps cfg w (user_name sp) (user_options sp) sp
         = (Inl e, sp\<lparr>trace := trace sp @ evs\<rparr>)"
      and evs: "cluster_helper_calls evs = []"
    from start_steps_raise[OF s] evs show ?thesis
      by (simp add: start_exception_metric_helpers)
  next
    fix evs
    assume s: "start_steps cfg w (user_name sp) (user_options sp) sp
         = and_then (provision cfg w (user_name sp) (user_options sp))
             (\<lambda>u. and_then (update_limits (user_options sp))
             (\<lambda>u. and_then (send_user_metrics cfg w)
             (\<lambda>u. send_start_exception_metric cfg w None)))
             (sp\<lparr>trace := trace sp @ evs\<rparr>)"
      and evs: "cluster_helper_calls evs = []"
    from s gate[of evs]
    have "start_steps cfg w (user_name sp) (user_options sp) sp
        = (Inl (ValueError CloudContainersStackUnsupported), sp\<lparr>trace := trace sp @ evs\<rparr>)"
      by (simp add: and_then_def)
    from start_steps_raise[OF this] evs show ?thesis
      by (simp add: start_exception_metric_helpers)
  qed
  assume "reaches_cluster_block cfg w sp"
  from start_provision_raises[OF this gate]
  show "fst (start cfg w sp) = Inl (ValueError CloudContainersStackUnsupported)" by auto
qed

text \<open>The release \<^verbatim>\<open>LCG_96\<close> with the cluster \<^verbatim>\<open>k8s\<close> on the sample installation.\<close>

theorem k8s_release_gate_before_helpers_witness:
  "offload (alice_on ''LCG_96'' ''k8s'')
   \<and> opt_spark_cluster (user_options (alice_on ''LCG_96'' ''k8s'')) = ''k8s''
   \<and> \<not> contains_str ''dev'' (opt_lcg_rel (user_options (alice_on ''LCG_96'' ''k8s'')))
   \<and> reaches_cluster_block site_config calm_world (alice_on ''LCG_96'' ''k8s'')
   \<and> fst (start site_config calm_world (alice_on ''LCG_96'' ''k8s''))
       = Inl (ValueError CloudContainersStackUnsupported)
   \<and> cluster_helper_calls (trace (snd (start site_config calm_world (alice_on ''LCG_96'' ''k8s''))))
       = []"
proof -
  have h: "offload (alice_on ''LCG_96'' ''k8s'')"
    "opt_spark_cluster (user_options (alice_on ''LCG_96'' ''k8s'')) = ''k8s''"
    "\<not> contains_str ''dev'' (opt_lcg_rel (user_options (alice_on ''LCG_96'' ''k8s'')))"
    by (simp_all add: alice_on_def alice_def)
  have r: "reaches_cluster_block site_config calm_world (alice_on ''LCG_96'' ''k8s'')"
    by (simp add: reaches_cluster_block_def helper_returns_def site_config_def
          default_config_def calm_world_def alice_on_def alice_def)
  have t: "cluster_helper_calls (trace (alice_on ''LCG_96'' ''k8s'')) = []"
    by (simp add: alice_on_def alice_def cluster_helper_calls_def)
  from k8s_release_gate_before_helpers[OF h, of site_config calm_world] h r t
  show ?thesis by simp
qed

lemma materialize_tokens_missing:
  assumes "\<not> token_files_exist w username"
  shows "materialize_tokens w username cluster sp =
           (if cluster = ''nxcals'' then (Inl (ValueError NxcalsAccessNotGranted), sp)
            else if cluster = ''k8s'' then (Inr (), sp)
            else (Inl (ValueError TokensMissingUnsupported), sp))"
  using assms unfolding materialize_tokens_def token_files_exist_def
  by (simp only: if_False)

lemma provision_other_cluster:
  assumes "offload sp" and "opt_spark_cluster opts \<noteq> ''k8s''"
    and "helper_returns w HadoopAuth
           [''sudo'', hadoop_auth_script cfg, opt_spark_cluster opts, username]"
  shows "provision cfg w username opts sp =
           materialize_tokens w username (opt_spark_cluster opts)
             (sp\<lparr>trace := trace sp @ [Subprocess HadoopAuth
                     [''sudo'', hadoop_auth_script cfg, opt_spark_cluster opts, username]],
                  env := (env sp)(''WEBHDFS_TOKEN'' := None,
                                   ''HADOOP_TOKEN_FILE_LOCATION'' := None,
                                   ''KUBECONFIG'' := None,
                                   ''KRB5CCNAME'' \<mapsto> ''/tmp/krb5cc'')\<rparr>)"
  using assms
  by (simp add: provision_def and_then_def clear_tokens_def authenticate_cluster_def
        run_helper_def set_krb5ccname_def emit_def helper_returns_def split: sum.splits)

text \<open>
  Claim C2. When the two token files are not both present and the cluster is not
  \<^verbatim>\<open>k8s\<close>, the step of lines 378-399 raises: the ValueError "Access to the NXCALS cluster
  is not granted. Please request access" for the cluster \<^verbatim>\<open>nxcals\<close>, the ValueError
  "Configuration unsupported ..." of line 396 for any other name. A start with offload
  requested that gets as far as the cluster block and whose Hadoop-auth helper returns
  raises that exception.
\<close>

theorem missing_tokens_rejected:
  assumes other: "cluster \<noteq> ''k8s''"
    and absent: "\<not> token_files_exist w username"
  shows "materialize_tokens w username cluster sp =
           (Inl (ValueError (if cluster = ''nxcals'' then NxcalsAccessNotGranted
                             else TokensMissingUnsupported)), sp)
     \<and> (offload sp \<and> user_name sp = username \<and> opt_spark_cluster (user_options sp) = cluster
          \<and> reaches_cluster_block cfg w sp
          \<and> helper_returns w HadoopAuth [''sudo'', hadoop_auth_script cfg, cluster, username]
        \<longrightarrow> fst (start cfg w sp) =
              Inl (ValueError (if cluster = ''nxcals'' then NxcalsAccessNotGranted
                               else TokensMissingUnsupported)))"
proof (intro conjI impI)
  show m: "\<And>sp. materialize_tokens w username cluster sp =
           (Inl (ValueError (if cluster = ''nxcals'' then NxcalsAccessNotGranted
                             else TokensMissingUnsupported)), sp)"
    using other by (simp add: materialize_tokens_missing[OF absent])
  assume a: "offload sp \<and> user_name sp = username \<and> opt_spark_cluster (user_options sp) = cluster
          \<and> reaches_cluster_block cfg w sp
          \<and> helper_returns w HadoopAuth [''sudo'', hadoop_auth_script cfg, cluster, username]"
  have "\<And>evs. provision cfg w (user_name sp) (user_options sp) (sp\<lparr>trace := trace sp @ evs\<rparr>)
        = (Inl (ValueError (if cluster = ''nxcals'' then NxcalsAccessNotGranted
                            else TokensMissingUnsupported)),
           sp\<lparr>trace := (trace sp @ evs) @ [Subprocess HadoopAuth
                     [''sudo'', hadoop_auth_script cfg, cluster, username]],
              env := (env sp)(''WEBHDFS_TOKEN'' := None,
                                 ''HADOOP_TOKEN_FILE_LOCATION'' := None,
                                 ''KUBECONFIG'' := None,
                                 ''KRB5CCNAME'' \<mapsto> ''/tmp/krb5cc'')\<rparr>)"
    using a other by (subst provision_other_cluster) (simp_all add: m)
  from start_provision_raises[of cfg w sp, OF _ this] a
  show "fst (start cfg w sp) =
              Inl (ValueError (if cluster = ''nxcals'' then NxcalsAccessNotGranted
                               else TokensMissingUnsupported))"
    by auto
qed

text \<open>The clusters \<^verbatim>\<open>nxcals\<close> and \<^verbatim>\<open>analytix\<close> for alice, who has no token files.\<close>

theorem missing_tokens_rejected_witness:
  "\<not> token_files_exist calm_world ''alice''
   \<and> reaches_cluster_block site_config calm_world (alice_on ''LCG-dev3'' ''nxcals'')
   \<and> helper_returns calm_world HadoopAuth
        [''sudo'', hadoop_auth_script site_config, ''nxcals'', ''alice'']
   \<and> fst (start site_config calm_world (alice_on ''LCG-dev3'' ''nxcals''))
        = Inl (ValueError NxcalsAccessNotGranted)
   \<and> fst (start site_config calm_world (alice_on ''LCG-dev3'' ''analytix''))
        = Inl (ValueError TokensMissingUnsupported)"
proof -
  have absent: "\<not> token_files_exist calm_world ''alice''"
    by (simp add: token_files_exist_def hadoop_host_path_def calm_world_def)
  have reach: "reaches_cluster_block site_config calm_world (alice_on ''LCG-dev3'' c)" for c
    by (simp add: reaches_cluster_block_def helper_returns_def site_config_def
          default_config_def calm_world_def alice_on_def alice_def)
  have ret: "helper_returns calm_world HadoopAuth [''sudo'', hadoop_auth_script site_config, c, ''alice'']"
    for c by (simp add: helper_returns_def calm_world_def)
  have st: "offload (alice_on ''LCG-dev3'' c) \<and> user_name (alice_on ''LCG-dev3'' c) = ''alice''
     \<and> opt_spark_cluster (user_options (alice_on ''LCG-dev3'' c)) = c" for c
    by (simp add: alice_on_def alice_def)
  from missing_tokens_rejected[of "''nxcals''" calm_world "''alice''"
         "alice_on ''LCG-dev3'' ''nxcals''" site_config, OF _ absent]
       missing_tokens_rejected[of "''analytix''" calm_world "''alice''"
         "alice_on ''LCG-dev3'' ''analytix''" site_config, OF _ absent]
       absent reach ret st
  show ?thesis by simp
qed

lemma provision_k8s:
  assumes "offload sp" and "opt_spark_cluster opts = ''k8s''"
    and "contains_str ''dev'' (opt_lcg_rel opts)"
    and "helper_returns w InitK8sUser [''sudo'', init_k8s_user cfg, username]"
    and "helper_returns w HadoopAuth [''sudo'', hadoop_auth_script cfg, ''analytix'', username]"
    and "path_exists w (hadoop_host_path username @ ''/k8s-user.config'')"
  shows "provision cfg w username opts sp =
           materialize_tokens w username ''k8s''
             (sp\<lparr>trace := trace sp @
                    [Subprocess InitK8sUser [''sudo'', init_k8s_user cfg, username],
                     Subprocess HadoopAuth
                       [''sudo'', hadoop_auth_script cfg, ''analytix'', username]],
                  env := (env sp)(''WEBHDFS_TOKEN'' := None,
                                   ''HADOOP_TOKEN_FILE_LOCATION'' := None,
                                   ''KUBECONFIG'' \<mapsto> ''/spark/k8s-user.config'',
                                   ''KRB5CCNAME'' \<mapsto> ''/spark/krb5cc'')\<rparr>)"
  using assms
  by (simp add: provision_def and_then_def clear_tokens_def authenticate_cluster_def
        run_helper_def set_kubeconfig_def set_krb5ccname_def emit_def helper_returns_def
        hadoop_container_path_def split: sum.splits)

text \<open>
  Claim C5, as amended. For every start with offload requested to the cluster \<^verbatim>\<open>k8s\<close>
  whose release name contains \<^verbatim>\<open>dev\<close>, whose init-user and Hadoop-auth helpers return,
  and where the kube-config of the user exists while the two token files are not both
  present, the cluster block completes without raising, and the environment then holds
  neither \<^verbatim>\<open>HADOOP_TOKEN_FILE_LOCATION\<close> nor \<^verbatim>\<open>WEBHDFS_TOKEN\<close> (and holds
  \<^verbatim>\<open>KUBECONFIG\<close>).
\<close>

theorem k8s_without_tokens_tolerated:
  assumes "offload sp" and "opt_spark_cluster opts = ''k8s''"
    and "contains_str ''dev'' (opt_lcg_rel opts)"
    and "helper_returns w InitK8sUser [''sudo'', init_k8s_user cfg, username]"
    and "helper_returns w HadoopAuth [''sudo'', hadoop_auth_script cfg, ''analytix'', username]"
    and "path_exists w (hadoop_host_path username @ ''/k8s-user.config'')"
    and "\<not> token_files_exist w username"
  shows "fst (provision cfg w username opts sp) = Inr ()
     \<and> env (snd (provision cfg w username opts sp)) ''HADOOP_TOKEN_FILE_LOCATION'' = None
     \<and> env (snd (provision cfg w username opts sp)) ''WEBHDFS_TOKEN'' = None
     \<and> env (snd (provision cfg w username opts sp)) ''KUBECONFIG''
         = Some ''/spark/k8s-user.config''"
  using assms(7)
  by (simp add: provision_k8s[OF assms(1-6)] materialize_tokens_missing)

text \<open>The release \<^verbatim>\<open>LCG-dev3\<close> with the cluster \<^verbatim>\<open>k8s\<close> for alice.\<close>

theorem k8s_without_tokens_tolerated_witness:
  "offload (alice_on ''LCG-dev3'' ''k8s'')
   \<and> contains_str ''dev'' ''LCG-dev3''
   \<and> path_exists calm_world (hadoop_host_path ''alice'' @ ''/k8s-user.config'')
   \<and> \<not> token_files_exist calm_world ''alice''
   \<and> fst (provision site_config calm_world ''alice''
             (user_options (alice_on ''LCG-dev3'' ''k8s'')) (alice_on ''LCG-dev3'' ''k8s'')) = Inr ()
   \<and> env (snd (provision site_config calm_world ''alice''
             (user_options (alice_on ''LCG-dev3'' ''k8s'')) (alice_on ''LCG-dev3'' ''k8s'')))
         ''WEBHDFS_TOKEN'' = None"
proof -
  have h: "offload (alice_on ''LCG-dev3'' ''k8s'')"
    "opt_spark_cluster (user_options (alice_on ''LCG-dev3'' ''k8s'')) = ''k8s''"
    "contains_str ''dev'' (opt_lcg_rel (user_options (alice_on ''LCG-dev3'' ''k8s'')))"
    "helper_returns calm_world InitK8sUser [''sudo'', init_k8s_user site_config, ''alice'']"
    "helper_returns calm_world HadoopAuth
       [''sudo'', hadoop_auth_script site_config, ''analytix'', ''alice'']"
    "path_exists calm_world (hadoop_host_path ''alice'' @ ''/k8s-user.config'')"
    "\<not> token_files_exist calm_world ''alice''"
    by (simp_all add: alice_on_def alice_def helper_returns_def calm_world_def
          token_files_exist_def hadoop_host_path_def)
  from k8s_without_tokens_tolerated[OF h] h show ?thesis
    by (simp add: alice_on_def alice_def)
qed

text \<open>
  Claim C5 as stated fails: with the release \<^verbatim>\<open>LCG_96\<close> the kube-config exists and the
  token files are absent, and the cluster block raises at the gate of line 321.
\<close>

theorem k8s_without_tokens_counterexample:
  "offload (alice_on ''LCG_96'' ''k8s'')
   \<and> opt_spark_cluster (user_options (alice_on ''LCG_96'' ''k8s'')) = ''k8s''
   \<and> path_exists calm_world (hadoop_host_path ''alice'' @ ''/k8s-user.config'')
   \<and> \<not> path_exists calm_world (hadoop_host_path ''alice'' @ ''/hadoop.toks'')
   \<and> \<not> path_exists calm_world (hadoop_host_path ''alice'' @ ''/webhdfs.toks'')
   \<and> provision site_config calm_world ''alice''
        (user_options (alice_on ''LCG_96'' ''k8s'')) (alice_on ''LCG_96'' ''k8s'')
       = (Inl (ValueError CloudContainersStackUnsupported), alice_on ''LCG_96'' ''k8s'')"
  by (simp add: provision_def alice_on_def alice_def calm_world_def hadoop_host_path_def)

section \<open>\<^verbatim>\<open>get_env\<close>\<close>

lemma bind_reserved_port_frame [simp]:
  "read_by_get_env (bind_reserved_port p sp) = read_by_get_env sp"
  by (simp add: read_by_get_env_def bind_reserved_port_def)

lemma emit_frame [simp]: "read_by_get_env (emit ev sp) = read_by_get_env sp"
  by (simp add: read_by_get_env_def emit_def)

lemma reserve_ports_frame:
  "read_by_get_env (snd (reserve_ports cfg w n k acc sp)) = read_by_get_env sp"
  by (induction n arbitrary: k acc sp) (simp_all add: Let_def split: sum.splits)

lemma reserve_ports_result:
  assumes "\<forall>k. get_reserved_port (port_os w2 k) (spark_session_port_range_start cfg)
                  (spark_session_port_range_end cfg) 10
              = get_reserved_port (port_os w1 k) (spark_session_port_range_start cfg)
                  (spark_session_port_range_end cfg) 10"
  shows "fst (reserve_ports cfg w2 n k acc sp2) = fst (reserve_ports cfg w1 n k acc sp1)"
  using assms
  by (induction n arbitrary: k acc sp1 sp2) (simp_all add: Let_def split: sum.splits)

lemma base_variables_cong:
  assumes "read_by_get_env sp2 = read_by_get_env sp1"
    and "super_get_env w2 = super_get_env w1" and "getpwnam w2 = getpwnam w1"
  shows "base_variables cfg w2 sp2 = base_variables cfg w1 sp1"
  using assms
  by (auto simp: base_variables_def session_variables_def read_by_get_env_def
           split: option.splits sum.splits)

lemma cluster_variables_cong:
  assumes "read_by_get_env sp2 = read_by_get_env sp1" and "nodename w2 = nodename w1"
  shows "cluster_variables cfg w2 sp2 e = cluster_variables cfg w1 sp1 e"
  using assms by (auto simp: cluster_variables_def read_by_get_env_def)

lemma clear_port_state_frame:
  assumes "extra_host_config sp = Some hc'" and "extra_create_kwargs sp = Some ck'"
  shows "read_by_get_env (clear_port_state hc ck sp) = read_by_get_env sp"
  using assms by (simp add: read_by_get_env_def clear_port_state_def)

lemma get_env_frame: "read_by_get_env (snd (get_env cfg w sp)) = read_by_get_env sp"
proof (cases "base_variables cfg w sp")
  case (Inl e)
  then show ?thesis by (simp add: get_env_def)
next
  case (Inr env1)
  show ?thesis
  proof (cases "extra_host_config sp")
    case None
    with Inr show ?thesis by (simp add: get_env_def)
  next
    case hc: (Some hc)
    show ?thesis
    proof (cases "extra_create_kwargs sp")
      case None
      with Inr hc show ?thesis by (simp add: get_env_def)
    next
      case ck: (Some ck)
      note cl = clear_port_state_frame[OF hc ck, of hc ck]
      show ?thesis
      proof (cases "offload (clear_port_state hc ck sp)")
        case False
        with Inr hc ck cl show ?thesis by (simp add: get_env_def Let_def)
      next
        case True
        obtain r sp2 where rp: "reserve_ports cfg w
            (nat (spark_session_num_ports cfg * spark_max_sessions cfg)) 0 []
            (clear_port_state hc ck sp) = (r, sp2)"
          by (cases "reserve_ports cfg w
            (nat (spark_session_num_ports cfg * spark_max_sessions cfg)) 0 []
            (clear_port_state hc ck sp)")
        from reserve_ports_frame[of cfg w
            "nat (spark_session_num_ports cfg * spark_max_sessions cfg)" 0 "[]"
            "clear_port_state hc ck sp"] rp
        have "read_by_get_env sp2 = read_by_get_env sp" using cl by simp
        with Inr hc ck True rp show ?thesis
          by (cases r) (simp_all add: get_env_def Let_def)
      qed
    qed
  qed
qed

lemma offload_read: "read_by_get_env sp2 = read_by_get_env sp1 \<Longrightarrow> offload sp2 = offload sp1"
  by (simp add: read_by_get_env_def)

lemma get_env_cong:
  assumes rd: "read_by_get_env sp2 = read_by_get_env sp1"
    and w: "super_get_env w2 = super_get_env w1" "getpwnam w2 = getpwnam w1"
    and nn: "nodename w2 = nodename w1"
    and ports: "\<forall>k. get_reserved_port (port_os w2 k) (spark_session_port_range_start cfg)
                  (spark_session_port_range_end cfg) 10
              = get_reserved_port (port_os w1 k) (spark_session_port_range_start cfg)
                  (spark_session_port_range_end cfg) 10"
  shows "fst (get_env cfg w2 sp2) = fst (get_env cfg w1 sp1)"
proof -
  have bv: "base_variables cfg w2 sp2 = base_variables cfg w1 sp1"
    using rd w by (rule base_variables_cong)
  from rd have h: "(extra_host_config sp2 = None) = (extra_host_config sp1 = None)"
    and c: "(extra_create_kwargs sp2 = None) = (extra_create_kwargs sp1 = None)"
    by (simp_all add: read_by_get_env_def)
  show ?thesis
  proof (cases "base_variables cfg w1 sp1")
    case (Inl e)
    with bv show ?thesis by (simp add: get_env_def)
  next
    case (Inr env1)
    show ?thesis
    proof (cases "extra_host_config sp1")
      case None
      with h have "extra_host_config sp2 = None" by simp
      with None Inr bv show ?thesis by (simp add: get_env_def)
    next
      case hc1: (Some hc1)
      with h obtain hc2 where hc2: "extra_host_config sp2 = Some hc2" by auto
      show ?thesis
      proof (cases "extra_create_kwargs sp1")
        case None
        with c have "extra_create_kwargs sp2 = None" by simp
        with None Inr bv hc1 hc2 show ?thesis by (simp add: get_env_def)
      next
        case ck1: (Some ck1)
        with c obtain ck2 where ck2: "extra_create_kwargs sp2 = Some ck2" by auto
        have rd': "read_by_get_env (clear_port_state hc2 ck2 sp2)
                     = read_by_get_env (clear_port_state hc1 ck1 sp1)"
          using rd clear_port_state_frame[OF hc1 ck1, of hc1 ck1]
            clear_port_state_frame[OF hc2 ck2, of hc2 ck2] by simp
        have cv: "cluster_variables cfg w2 (clear_port_state hc2 ck2 sp2) env1
                    = cluster_variables cfg w1 (clear_port_state hc1 ck1 sp1) env1"
          using rd' nn by (rule cluster_variables_cong)
        have off: "offload (clear_port_state hc2 ck2 sp2) = offload (clear_port_state hc1 ck1 sp1)"
          using rd' by (rule offload_read)
        let ?n = "nat (spark_session_num_ports cfg * spark_max_sessions cfg)"
        have rp: "fst (reserve_ports cfg w2 ?n 0 [] (clear_port_state hc2 ck2 sp2))
                    = fst (reserve_ports cfg w1 ?n 0 [] (clear_port_state hc1 ck1 sp1))"
          using ports by (rule reserve_ports_result)
        obtain r1 s1 where r1: "reserve_ports cfg w1 ?n 0 [] (clear_port_state hc1 ck1 sp1) = (r1, s1)"
          by (cases "reserve_ports cfg w1 ?n 0 [] (clear_port_state hc1 ck1 sp1)")
        obtain r2 s2 where r2: "reserve_ports cfg w2 ?n 0 [] (clear_port_state hc2 ck2 sp2) = (r2, s2)"
          by (cases "reserve_ports cfg w2 ?n 0 [] (clear_port_state hc2 ck2 sp2)")
        from rp r1 r2 have "r2 = r1" by simp
        with Inr bv hc1 hc2 ck1 ck2 cv off r1 r2 show ?thesis
          by (cases r1; cases "offload (clear_port_state hc1 ck1 sp1)")
             (simp_all add: get_env_def Let_def)
      qed
    qed
  qed
qed


lemma free_port_drawn:
  "get_reserved_port (\<lambda>i. free_attempt (f i)) 5001 5300 10
     = Inr (Some (5001 + int (f 0) mod 300))"
proof -
  define x where "x = int (f 0) mod 300"
  have x: "0 \<le> x" "x < 300" by (simp_all add: x_def)
  have "randint (entropy (free_attempt (f 0))) 5001 5300 = Inr (5001 + x)"
    by (simp add: randint_def free_attempt_def x_def)
  moreover have "bound_port (free_attempt (f 0)) (5001 + x) = Inr (5001 + x)"
    using x by (auto simp: bound_port_def free_attempt_def)
  moreover have "5001 + x \<notin> set [22, 8000]" using x by auto
  ultimately have "reserve_attempt (free_attempt (f 0)) 5001 5300 = Inr (5001 + x)"
    by (simp add: reserve_attempt_def free_attempt_def)
  then show ?thesis
    by (simp add: get_reserved_port_def reserve_loop.simps x_def)
qed

lemma later_world_same_ports:
  "get_reserved_port (port_os later_world k) 5001 5300 10
     = get_reserved_port (port_os calm_world k) 5001 5300 10"
proof -
  have "int (7 * k + 0 + 300) mod 300 = int (7 * k + 0) mod 300" by simp
  then show ?thesis
    by (simp add: later_world_def calm_world_def
          free_port_drawn[of "\<lambda>i. 7 * k + i + 300"] free_port_drawn[of "\<lambda>i. 7 * k + i"])
qed

lemma session_variables_other:
  assumes "k \<notin> set session_entries"
  shows "session_variables cfg sp userid homepath e k = e k"
proof -
  from assms have k: "k \<noteq> ''ROOT_LCG_VIEW_NAME''" "k \<noteq> ''ROOT_LCG_VIEW_PLATFORM''"
    "k \<noteq> ''USER_ENV_SCRIPT''" "k \<noteq> ''ROOT_LCG_VIEW_PATH''" "k \<noteq> ''USER''"
    "k \<noteq> ''USER_ID''" "k \<noteq> ''HOME''" "k \<noteq> ''JPY_USER''" "k \<noteq> ''JPY_COOKIE_NAME''"
    "k \<noteq> ''JPY_BASE_URL''" "k \<noteq> ''JPY_HUB_PREFIX''" "k \<noteq> ''JPY_HUB_API_URL''"
    unfolding session_entries_def by simp_all
  show ?thesis
    unfolding session_variables_def using k by (simp only: fun_upd_apply if_False)
qed

lemma cluster_entries_not_session:
  assumes "k \<in> set cluster_entries"
  shows "k \<notin> set session_entries"
  using assms unfolding cluster_entries_def session_entries_def by auto

lemma base_variables_cluster_entries:
  assumes "base_variables cfg w sp = Inr e" and "k \<in> set cluster_entries"
  shows "e k = (super_get_env w ++ extra_env cfg) k"
proof (cases "getpwnam w (user_name sp)")
  case None
  with assms(1) show ?thesis by (simp add: base_variables_def)
next
  case (Some userid)
  show ?thesis
  proof (cases "home_path cfg (user_name sp)")
    case (Inl x)
    with Some assms(1) show ?thesis by (simp add: base_variables_def)
  next
    case (Inr homepath)
    with Some assms(1)
    have "e = session_variables cfg sp userid homepath (super_get_env w) ++ extra_env cfg"
      by (simp add: base_variables_def)
    moreover have "session_variables cfg sp userid homepath (super_get_env w) k
        = super_get_env w k"
      using cluster_entries_not_session[OF assms(2)] by (rule session_variables_other)
    ultimately show ?thesis
      by (simp add: map_add_def split: option.splits)
  qed
qed

lemma calm_ports:
  "get_reserved_port (port_os calm_world k) 5001 5300 10 = Inr (Some (5001 + int (7 * k) mod 300))"
  using free_port_drawn[of "\<lambda>i. 7 * k + i"] by (simp add: calm_world_def)

lemma reserve_ports_calm:
  "reserve_ports site_config calm_world 3 0 [] sp =
     (Inr [''5001'', ''5008'', ''5015''],
      bind_reserved_port (Some 5015) (emit (ReservePort 5001 5300)
        (bind_reserved_port (Some 5008) (emit (ReservePort 5001 5300)
          (bind_reserved_port (Some 5001) (emit (ReservePort 5001 5300) sp))))))"
proof -
  have r: "spark_session_port_range_start site_config = 5001"
    "spark_session_port_range_end site_config = 5300"
    by (simp_all add: site_config_def default_config_def)
  have s: "str_port (Some 5001) = ''5001''" "str_port (Some 5008) = ''5008''"
    "str_port (Some 5015) = ''5015''"
    by (simp_all add: str_port_def str_int_def str_nat.simps digit_char_def)
  show ?thesis
    by (simp add: numeral_3_eq_3 Let_def r calm_ports s)
qed

lemma alice_on_fields:
  "user_name (alice_on rel c) = ''alice''"
  "offload (alice_on rel c)"
  "extra_host_config (alice_on rel c)
     = Some \<lparr>port_bindings = Map.empty, cpu_period = None, cpu_quota = None\<rparr>"
  "extra_create_kwargs (alice_on rel c) = Some \<lparr>ports = []\<rparr>"
  "trace (alice_on rel c) = []"
  by (simp_all add: alice_on_def alice_def)

lemma site_ports:
  "spark_session_num_ports site_config = 3" "spark_max_sessions site_config = 1"
  by (simp_all add: site_config_def default_config_def)

lemma base_variables_alice_on:
  "base_variables site_config calm_world (alice_on rel c) =
     Inr (session_variables site_config (alice_on rel c) 1000 ''/eos/user/a/alice''
            (super_get_env calm_world) ++ extra_env site_config)"
  by (simp add: base_variables_def home_path_def alice_on_fields calm_world_def
        site_config_def default_config_def)

lemma get_env_alice_analytix:
  "\<not> isl (fst (get_env site_config calm_world (alice_on ''LCG-dev3'' ''analytix'')))
   \<and> projr (fst (get_env site_config calm_world (alice_on ''LCG-dev3'' ''analytix'')))
        ''SPARK_PORTS'' = Some ''5001,5008,5015''"
proof -
  have off: "offload (clear_port_state hc ck (alice_on rel c))" for hc ck rel c
    by (simp add: clear_port_state_def alice_on_fields)
  show ?thesis
    by (simp add: get_env_def base_variables_alice_on alice_on_fields Let_def off site_ports
          reserve_ports_calm)
qed

text \<open>
  Claim C6. Two successive calls of \<^verbatim>\<open>get_env\<close> return the same environment whenever
  the inputs are the same: the configuration and the session (the second call runs on
  the spawner as the first call left it), the dict of the upstream class, the uid of
  the user, the host name, and the outcome of every port reservation. The entry
  \<^verbatim>\<open>SPARK_PORTS\<close> is part of the environment compared.
\<close>

theorem get_env_idempotent:
  assumes "super_get_env w2 = super_get_env w1" and "getpwnam w2 = getpwnam w1"
    and "nodename w2 = nodename w1"
    and "\<forall>k. get_reserved_port (port_os w2 k) (spark_session_port_range_start cfg)
                  (spark_session_port_range_end cfg) 10
              = get_reserved_port (port_os w1 k) (spark_session_port_range_start cfg)
                  (spark_session_port_range_end cfg) 10"
  shows "fst (get_env cfg w2 (snd (get_env cfg w1 sp))) = fst (get_env cfg w1 sp)"
  using get_env_frame assms by (rule get_env_cong)

text \<open>
  A session with offload on the sample machine and again an hour later, where the
  draws differ and land on the same three ports.
\<close>

theorem get_env_idempotent_witness:
  "super_get_env later_world = super_get_env calm_world
   \<and> getpwnam later_world = getpwnam calm_world
   \<and> nodename later_world = nodename calm_world
   \<and> fst (get_env site_config later_world
             (snd (get_env site_config calm_world (alice_on ''LCG-dev3'' ''analytix''))))
       = fst (get_env site_config calm_world (alice_on ''LCG-dev3'' ''analytix''))
   \<and> \<not> isl (fst (get_env site_config calm_world (alice_on ''LCG-dev3'' ''analytix'')))
   \<and> projr (fst (get_env site_config calm_world (alice_on ''LCG-dev3'' ''analytix'')))
        ''SPARK_PORTS'' = Some ''5001,5008,5015''"
proof -
  have w: "super_get_env later_world = super_get_env calm_world"
    "getpwnam later_world = getpwnam calm_world"
    "nodename later_world = nodename calm_world"
    by (simp_all add: later_world_def)
  have p: "\<forall>k. get_reserved_port (port_os later_world k)
                  (spark_session_port_range_start site_config)
                  (spark_session_port_range_end site_config) 10
              = get_reserved_port (port_os calm_world k)
                  (spark_session_port_range_start site_config)
                  (spark_session_port_range_end site_config) 10"
    using later_world_same_ports by (simp add: site_config_def default_config_def)
  from get_env_idempotent[OF w p, of "alice_on ''LCG-dev3'' ''analytix''"] w
    get_env_alice_analytix
  show ?thesis by simp
qed


lemma options_from_form_offload:
  assumes "options_from_form cfg formdata sp0 = (Inr opts, sp1)"
  shows "offload sp1 = (opt_spark_cluster opts \<noteq> ''none'')"
  using assms by (auto simp: options_from_form_def split: sum.splits)

lemma get_env_no_offload:
  assumes "\<not> offload sp"
  shows "get_env cfg w sp =
     (case base_variables cfg w sp of
        Inl e \<Rightarrow> (Inl e, sp)
      | Inr env1 \<Rightarrow>
          (case extra_host_config sp of
             None \<Rightarrow> (Inr env1, sp)
           | Some hc \<Rightarrow>
               (case extra_create_kwargs sp of
                  None \<Rightarrow> (Inr env1, sp)
                | Some ck \<Rightarrow> (Inr env1, clear_port_state hc ck sp))))"
  using assms
  by (simp add: get_env_def Let_def clear_port_state_def split: sum.splits option.splits)

text \<open>
  Claim C7, as amended. For every session whose form selected the cluster \<^verbatim>\<open>none\<close>
  (so that \<^verbatim>\<open>options_from_form\<close> left the offload flag off), \<^verbatim>\<open>get_env\<close> sets none of
  the six cluster entries: in the environment it returns, each of them is what the
  dict of the upstream class and \<^verbatim>\<open>extra_env\<close> hold for it, absent when they hold
  nothing. \<^verbatim>\<open>get_reserved_port\<close> is not called.
\<close>

theorem no_cluster_adds_no_cluster_entries:
  assumes form: "options_from_form cfg formdata sp0 = (Inr opts, sp1)"
    and none: "opt_spark_cluster opts = ''none''"
    and flag: "offload sp = offload sp1"
  shows "(\<forall>e. fst (get_env cfg w sp) = Inr e \<longrightarrow>
            (\<forall>k \<in> set cluster_entries. e k = (super_get_env w ++ extra_env cfg) k))
     \<and> reservations (trace (snd (get_env cfg w sp))) = reservations (trace sp)"
proof -
  from options_from_form_offload[OF form] none flag have off: "\<not> offload sp" by simp
  have tr: "trace (snd (get_env cfg w sp)) = trace sp"
    by (simp add: get_env_no_offload[OF off] clear_port_state_def
          split: sum.splits option.splits)
  have "e k = (super_get_env w ++ extra_env cfg) k"
    if "fst (get_env cfg w sp) = Inr e" and "k \<in> set cluster_entries" for e k
  proof -
    from that(1) have "base_variables cfg w sp = Inr e"
      by (auto simp: get_env_no_offload[OF off] split: sum.splits option.splits)
    then show ?thesis using that(2) by (rule base_variables_cluster_entries)
  qed
  with tr show ?thesis by simp
qed

lemma options_swan_form:
  "options_from_form (site_config\<lparr>extra_env := x\<rparr>) swan_form alice =
     (Inr \<lparr>opt_lcg_rel = ''LCG-dev3'', opt_platform = ''x86_64'', opt_scriptenv = [],
           opt_spark_cluster = ''none'', opt_ncores = 2, opt_memory = ''8G''\<rparr>, alice)"
  by (simp add: options_from_form_def form_first_def form_cluster_def form_cores_def
        form_memory_def first_option_def swan_form_def site_config_def default_config_def
        lcg_rel_field_def platform_field_def user_script_env_field_def
        spark_cluster_field_def user_n_cores_def user_memory_def alice_def
        py_int_def strip_def is_space_def is_decimal_def digit_value_def decimal_value_def)

lemma alice_fields:
  "user_name alice = ''alice''" "\<not> offload alice" "trace alice = []"
  "extra_host_config alice
     = Some \<lparr>port_bindings = Map.empty, cpu_period = None, cpu_quota = None\<rparr>"
  "extra_create_kwargs alice = Some \<lparr>ports = []\<rparr>"
  by (simp_all add: alice_def)

lemma base_variables_alice:
  "base_variables (site_config\<lparr>extra_env := x\<rparr>) (calm_world\<lparr>super_get_env := b\<rparr>) alice =
     Inr (session_variables (site_config\<lparr>extra_env := x\<rparr>) alice 1000 ''/eos/user/a/alice'' b
            ++ x)"
  by (simp add: base_variables_def home_path_def alice_fields calm_world_def
        site_config_def default_config_def)

lemma get_env_alice:
  "fst (get_env (site_config\<lparr>extra_env := x\<rparr>) (calm_world\<lparr>super_get_env := b\<rparr>) alice) =
     Inr (session_variables (site_config\<lparr>extra_env := x\<rparr>) alice 1000 ''/eos/user/a/alice'' b
            ++ x)"
  by (simp add: get_env_no_offload[OF alice_fields(2)] base_variables_alice alice_fields)

text \<open>
  The sample form without a cluster field: the six entries are absent and no port is
  reserved.
\<close>

theorem no_cluster_adds_no_cluster_entries_witness:
  "fst (options_from_form site_config swan_form alice) =
     Inr \<lparr>opt_lcg_rel = ''LCG-dev3'', opt_platform = ''x86_64'', opt_scriptenv = [],
          opt_spark_cluster = ''none'', opt_ncores = 2, opt_memory = ''8G''\<rparr>
   \<and> \<not> isl (fst (get_env site_config calm_world alice))
   \<and> map (projr (fst (get_env site_config calm_world alice))) cluster_entries
       = [None, None, None, None, None, None]
   \<and> reservations (trace (snd (get_env site_config calm_world alice))) = []"
proof -
  have sc: "site_config\<lparr>extra_env := Map.empty\<rparr> = site_config"
    by (simp add: site_config_def default_config_def)
  have cw: "calm_world\<lparr>super_get_env := [''PATH'' \<mapsto> ''/usr/bin'']\<rparr> = calm_world"
    by (simp add: calm_world_def)
  have a: "options_from_form site_config swan_form alice =
     (Inr \<lparr>opt_lcg_rel = ''LCG-dev3'', opt_platform = ''x86_64'', opt_scriptenv = [],
           opt_spark_cluster = ''none'', opt_ncores = 2, opt_memory = ''8G''\<rparr>, alice)"
    using options_swan_form[of Map.empty] by (simp only: sc)
  obtain e where e: "fst (get_env site_config calm_world alice) = Inr e"
    using get_env_alice[of Map.empty "[''PATH'' \<mapsto> ''/usr/bin'']"] by (simp only: sc cw)
  have b: "(super_get_env calm_world ++ extra_env site_config) k = None"
    if "k \<in> set cluster_entries" for k
    using that
    by (auto simp: cluster_entries_def calm_world_def site_config_def default_config_def)
  from no_cluster_adds_no_cluster_entries[OF a _ refl, of calm_world] e b
  have "\<forall>k \<in> set cluster_entries. e k = None"
    and r: "reservations (trace (snd (get_env site_config calm_world alice)))
              = reservations (trace alice)"
    by simp_all
  then have "map e cluster_entries = [None, None, None, None, None, None]"
    by (simp add: cluster_entries_def)
  moreover have "reservations (trace alice) = []"
    by (simp add: alice_fields reservations_def)
  ultimately show ?thesis using a e r by simp
qed

text \<open>
  Claim C7 as stated fails: with \<^verbatim>\<open>SPARK_PORTS\<close> in \<^verbatim>\<open>extra_env\<close> and \<^verbatim>\<open>SPARK_USER\<close> in
  the dict of the upstream class, the environment of a session without a cluster holds
  both entries.
\<close>

theorem no_cluster_entries_counterexample:
  "fst (options_from_form (site_config\<lparr>extra_env := [''SPARK_PORTS'' \<mapsto> ''5001'']\<rparr>)
          swan_form alice) =
     Inr \<lparr>opt_lcg_rel = ''LCG-dev3'', opt_platform = ''x86_64'', opt_scriptenv = [],
          opt_spark_cluster = ''none'', opt_ncores = 2, opt_memory = ''8G''\<rparr>
   \<and> \<not> offload alice
   \<and> \<not> isl (fst (get_env (site_config\<lparr>extra_env := [''SPARK_PORTS'' \<mapsto> ''5001'']\<rparr>)
                   (calm_world\<lparr>super_get_env := [''SPARK_USER'' \<mapsto> ''spark'']\<rparr>) alice))
   \<and> projr (fst (get_env (site_config\<lparr>extra_env := [''SPARK_PORTS'' \<mapsto> ''5001'']\<rparr>)
                   (calm_world\<lparr>super_get_env := [''SPARK_USER'' \<mapsto> ''spark'']\<rparr>) alice))
        ''SPARK_PORTS'' = Some ''5001''
   \<and> projr (fst (get_env (site_config\<lparr>extra_env := [''SPARK_PORTS'' \<mapsto> ''5001'']\<rparr>)
                   (calm_world\<lparr>super_get_env := [''SPARK_USER'' \<mapsto> ''spark'']\<rparr>) alice))
        ''SPARK_USER'' = Some ''spark''"
proof -
  have "session_variables cfg sp u h [''SPARK_USER'' \<mapsto> ''spark''] ''SPARK_USER'' = Some ''spark''"
    for cfg sp u h
    by (simp add: session_variables_other session_entries_def)
  then show ?thesis
    by (simp add: options_swan_form get_env_alice alice_fields map_add_def)
qed

end
